theory Spec2Isabelle
  imports Complex_Main "HOL-Library.Word"
begin

section \<open>Machine types and C strings\<close>

text \<open>
  The sketch runs on an ESP32: \<open>int\<close> is a 32-bit two's complement value, \<open>uint32_t\<close>
  (\<open>millis()\<close>, \<open>TickType_t\<close>) a 32-bit unsigned one and a colour a \<open>uint16_t\<close>. All three are
  words; a signed reading goes through \<open>sint\<close>. Pixel coordinates and sizes are C ints too,
  but they stay far from the 32-bit limits (a 135x240 panel, widths of at most 63 glyphs),
  so they are modelled as unbounded integers.

  A C string is modelled as the list of its bytes before the terminating NUL.
\<close>

type_synonym c_int = "32 word"
type_synonym u32 = "32 word"
type_synonym u16 = "16 word"

text \<open>\<open>strncpy(dst, s, n)\<close> into a zero-initialised buffer of \<open>n + 1\<close> bytes.\<close>

definition strncpy_buf :: "nat \<Rightarrow> string \<Rightarrow> string" where
  "strncpy_buf n s = take n s"

text \<open>\<open>strstr(hay, needle) != NULL\<close>: the needle occurs as a contiguous substring.\<close>

fun strstr_found :: "string \<Rightarrow> string \<Rightarrow> bool" where
  "strstr_found [] needle = (needle = [])"
| "strstr_found (c # cs) needle =
     (take (length needle) (c # cs) = needle \<or> strstr_found cs needle)"

text \<open>The decimal digits that \<open>printf("%d")\<close> writes.\<close>

definition digit_char :: "nat \<Rightarrow> char" where
  "digit_char d = ''0123456789'' ! d"

fun dec_nat :: "nat \<Rightarrow> string" where
  "dec_nat n =
     (if n < 10 then [digit_char n]
      else dec_nat (n div 10) @ [digit_char (n mod 10)])"

declare dec_nat.simps [simp del]

definition dec_int :: "int \<Rightarrow> string" where
  "dec_int i = (if i < 0 then CHR ''-'' # dec_nat (nat (- i)) else dec_nat (nat i))"

text \<open>The UTF-8 bytes of the horizontal ellipsis used in the status texts.\<close>

definition ellipsis :: string where
  "ellipsis = [CHR 0xE2, CHR 0x80, CHR 0xA6]"

section \<open>Queue messages\<close>

datatype CmdType = CMD_POLL | CMD_NEXT | CMD_PREV | CMD_NET_UP | CMD_HOME0

datatype UiType = UI_STATUS | UI_SLIDE | UI_WIFI

text \<open>
  \<open>struct UiMsg\<close>. The two \<open>char[64]\<close> buffers hold at most 63 bytes of text; every message
  is built from \<open>UiMsg m{}\<close>, all fields zero.
\<close>

record UiMsg =
  ui_type :: UiType
  ui_text :: string
  slideIndexOneBased :: c_int
  presName :: string

definition UiMsg_zero :: UiMsg where
  "UiMsg_zero = \<lparr>ui_type = UI_STATUS, ui_text = [], slideIndexOneBased = 0, presName = []\<rparr>"

text \<open>
  The four enqueue helpers. Each builds one message and offers it to the UI queue with
  \<open>xQueueSend(uiQ, &m, 0)\<close>; the model returns the message offered, and the functions
  of the tasks below return the list of messages they offer, in order.
\<close>

definition enqueueStatus :: "string \<Rightarrow> UiMsg" where
  "enqueueStatus s = UiMsg_zero\<lparr>ui_type := UI_STATUS, ui_text := strncpy_buf 63 s\<rparr>"

definition enqueueStatusCode :: "string \<Rightarrow> c_int \<Rightarrow> UiMsg" where
  "enqueueStatusCode p c =
     UiMsg_zero\<lparr>ui_type := UI_STATUS, ui_text := take 63 (p @ '' '' @ dec_int (sint c))\<rparr>"

definition enqueueWifi :: "string \<Rightarrow> UiMsg" where
  "enqueueWifi s = UiMsg_zero\<lparr>ui_type := UI_WIFI, ui_text := strncpy_buf 63 s\<rparr>"

definition enqueueSlide :: "c_int \<Rightarrow> string option \<Rightarrow> UiMsg" where
  "enqueueSlide idx1 nm =
     UiMsg_zero\<lparr>ui_type := UI_SLIDE, slideIndexOneBased := idx1,
       presName := strncpy_buf 63 (case nm of None \<Rightarrow> [] | Some s \<Rightarrow> s)\<rparr>"

section \<open>The parsed JSON value\<close>

text \<open>
  \<open>JSONVar\<close> of the Arduino_JSON library, as the sketch uses it. \<open>JUndefined\<close> is the value
  \<open>JSON.parse\<close> returns for text that is not JSON; a number carries the \<open>int\<close> the
  library reads it as.
\<close>

datatype json =
    JUndefined
  | JNull
  | JBool bool
  | JNumber c_int
  | JString string
  | JArray "json list"
  | JObject "(string \<times> json) list"

definition hasOwnProperty :: "json \<Rightarrow> string \<Rightarrow> bool" where
  "hasOwnProperty j k = (case j of JObject kvs \<Rightarrow> map_of kvs k \<noteq> None | _ \<Rightarrow> False)"

text \<open>\<open>j[k]\<close>; the sketch reads a member only after \<open>hasOwnProperty\<close> has found it.\<close>

definition json_get :: "json \<Rightarrow> string \<Rightarrow> json" where
  "json_get j k =
     (case j of
        JObject kvs \<Rightarrow> (case map_of kvs k of Some v \<Rightarrow> v | None \<Rightarrow> JNull)
      | _ \<Rightarrow> JNull)"

text \<open>The conversions \<open>(int)j\<close> and \<open>(const char*)j\<close>; the latter is \<open>NULL\<close> for a non-string.\<close>

definition json_int :: "json \<Rightarrow> c_int" where
  "json_int j = (case j of JNumber n \<Rightarrow> n | _ \<Rightarrow> 0)"

definition json_cstr :: "json \<Rightarrow> string option" where
  "json_cstr j = (case j of JString s \<Rightarrow> Some s | _ \<Rightarrow> None)"

section \<open>The Network Worker\<close>

subsection \<open>One HTTP request\<close>

text \<open>
  What the transport answers to one request: whether \<open>http.begin\<close> succeeds, the value of
  \<open>http.GET()\<close> (a positive HTTP status, or a negative library error) and the body.
\<close>

record http_reply =
  begin_ok :: bool
  get_code :: c_int
  reply_body :: string

definition HTTP_CODE_OK :: c_int where
  "HTTP_CODE_OK = 200"


text \<open>\<open>httpGET_once\<close>: the returned flag, \<open>code\<close> and \<open>body\<close>.\<close>

definition httpGET_once :: "http_reply \<Rightarrow> bool \<times> c_int \<times> string" where
  "httpGET_once r =
     (if \<not> begin_ok r then (False, - 1000, [])
      else let code = get_code r
           in (0 < sint code, code, if 0 < sint code then reply_body r else []))"

subsection \<open>Polling the slide index\<close>

text \<open>
  \<open>pollSlideOnce\<close>, given the library's \<open>JSON.parse\<close>, the reply to its request and the
  value of \<open>gProUnreachable\<close>. The result holds the returned flag, \<open>errMsg\<close>, the new value
  of \<open>gProUnreachable\<close> and the messages offered to the UI queue.
\<close>

record poll_result =
  poll_ok :: bool
  errMsg :: "string option"
  unreachable_after :: bool
  poll_sent :: "UiMsg list"

text \<open>
  The three failure exits share their last two statements: set the flag and post the
  banner unless the flag was already set, then return false. \<open>errMsg\<close> is \<open>None\<close> where
  the function leaves the caller's string as it was.
\<close>

definition poll_fail :: "string \<Rightarrow> bool \<Rightarrow> poll_result" where
  "poll_fail err gProUnreachable =
     \<lparr>poll_ok = False, errMsg = Some err, unreachable_after = True,
      poll_sent = (if \<not> gProUnreachable then [enqueueStatus ''Pro Unreachable''] else [])\<rparr>"

text \<open>The values of \<open>idx1\<close> and \<open>name\<close> that lines 502-508 leave for a parsed object.\<close>

definition slide_idx1 :: "json \<Rightarrow> c_int" where
  "slide_idx1 obj =
     (if hasOwnProperty obj ''presentation_index'' then
        (let pi = json_get obj ''presentation_index''
         in if hasOwnProperty pi ''index'' then json_int (json_get pi ''index'') + 1 else - 1)
      else - 1)"

definition slide_name :: "json \<Rightarrow> string option" where
  "slide_name obj =
     (if hasOwnProperty obj ''presentation_index'' then
        (let pi = json_get obj ''presentation_index''
         in if hasOwnProperty pi ''presentation_id''
               \<and> hasOwnProperty (json_get pi ''presentation_id'') ''name''
            then json_cstr (json_get (json_get pi ''presentation_id'') ''name'')
            else Some [])
      else Some [])"

definition pollSlideOnce :: "(string \<Rightarrow> json) \<Rightarrow> http_reply \<Rightarrow> bool \<Rightarrow> poll_result" where
  "pollSlideOnce JSON_parse r gProUnreachable =
     (case httpGET_once r of (ok, code, payload) \<Rightarrow>
        if \<not> ok then poll_fail ''Poll fail'' gProUnreachable
        else if code = HTTP_CODE_OK then
          (let obj = JSON_parse payload in
           if obj = JUndefined then poll_fail ''Bad JSON'' gProUnreachable
           else
             \<lparr>poll_ok = True, errMsg = None, unreachable_after = False,
              poll_sent = (if gProUnreachable then [enqueueStatus ''Pro Connected''] else [])
                          @ [enqueueSlide (slide_idx1 obj) (slide_name obj)]\<rparr>)
        else poll_fail ''HTTP'' gProUnreachable)"

text \<open>
  A sequence of polls, each with its own reply: the flag is threaded through, the
  returned flags and the offered messages are collected poll by poll.
\<close>

fun poll_seq :: "(string \<Rightarrow> json) \<Rightarrow> bool \<Rightarrow> http_reply list \<Rightarrow> bool \<times> poll_result list" where
  "poll_seq JSON_parse g [] = (g, [])"
| "poll_seq JSON_parse g (r # rs) =
     (let res = pollSlideOnce JSON_parse r g;
          (g', rest) = poll_seq JSON_parse (unreachable_after res) rs
      in (g', res # rest))"

text \<open>
  Whether the parsed object carries the numeric index and the presentation name, read
  with the same tests as \<open>pollSlideOnce\<close>.
\<close>

definition index_present :: "json \<Rightarrow> bool" where
  "index_present obj =
     (hasOwnProperty obj ''presentation_index'' \<and>
      hasOwnProperty (json_get obj ''presentation_index'') ''index'')"

definition name_present :: "json \<Rightarrow> bool" where
  "name_present obj =
     (hasOwnProperty obj ''presentation_index'' \<and>
      hasOwnProperty (json_get obj ''presentation_index'') ''presentation_id'' \<and>
      hasOwnProperty (json_get (json_get obj ''presentation_index'') ''presentation_id'') ''name'')"

definition index_value :: "json \<Rightarrow> json" where
  "index_value obj = json_get (json_get obj ''presentation_index'') ''index''"

definition name_value :: "json \<Rightarrow> json" where
  "name_value obj =
     json_get (json_get (json_get obj ''presentation_index'') ''presentation_id'') ''name''"

text \<open>Whether a poll with this reply returns true; the flag plays no part in it.\<close>

definition poll_succeeds :: "(string \<Rightarrow> json) \<Rightarrow> http_reply \<Rightarrow> bool" where
  "poll_succeeds JSON_parse r = poll_ok (pollSlideOnce JSON_parse r False)"

text \<open>The messages a list of polls offered, and how many of them are a given status text.\<close>

definition sent_of :: "poll_result list \<Rightarrow> UiMsg list" where
  "sent_of rs = concat (map poll_sent rs)"

definition count_status :: "string \<Rightarrow> UiMsg list \<Rightarrow> nat" where
  "count_status t ms = length (filter (\<lambda>m. ui_type m = UI_STATUS \<and> ui_text m = t) ms)"

text \<open>
  The results of the polls of \<open>run\<close>, when they come after the polls of \<open>pre\<close> and before
  those of \<open>post\<close>.
\<close>

definition run_results ::
  "(string \<Rightarrow> json) \<Rightarrow> bool \<Rightarrow> http_reply list \<Rightarrow> http_reply list \<Rightarrow> http_reply list \<Rightarrow> poll_result list" where
  "run_results JSON_parse g pre run post =
     take (length run) (drop (length pre) (snd (poll_seq JSON_parse g (pre @ run @ post))))"

subsection \<open>Bringing the link up\<close>




subsection \<open>Processing one command\<close>

text \<open>
  The state \<open>httpTask\<close> keeps between commands, and what the world gives to the processing
  of one command: the link, the tick count, the reply to the first request and the reply
  to the second one (only a poll that failed asks twice).
\<close>

record http_state =
  gProUnreachable :: bool
  nextForcedPoll :: u32
  lastAttemptMs :: u32









section \<open>The Render Worker\<close>

subsection \<open>Colours, layout and font metrics\<close>

definition COL_BG :: u16 where "COL_BG = 0x0000"
definition COL_TEXT :: u16 where "COL_TEXT = 0xFFFF"
definition COL_MUTED :: u16 where "COL_MUTED = 0x8410"
definition COL_BORDER :: u16 where "COL_BORDER = 0xC618"
definition COL_GOOD :: u16 where "COL_GOOD = 0x04A0"
definition COL_BAD :: u16 where "COL_BAD = 0xE800"

text \<open>
  The display library is not part of the sketch. What the sketch asks of it is the panel
  size and the metrics of its numbered fonts at text size 1; they are parameters here.
  At text size \<open>k\<close> the library multiplies both metrics by \<open>k\<close>.
\<close>

record gfx =
  lcd_width :: int
  lcd_height :: int
  textWidth :: "int \<Rightarrow> string \<Rightarrow> int"
  fontHeight :: "int \<Rightarrow> int"

record layout =
  LCD_W :: int
  LCD_H :: int
  PAD :: int
  STATUS_H :: int
  HEART_H :: int
  STATUS_Y :: int
  TITLE_Y :: int
  TITLE_H :: int
  CARD_Y :: int
  CARD_H :: int

definition initLayoutAndSprites :: "gfx \<Rightarrow> layout" where
  "initLayoutAndSprites g =
     (let lcd_w = lcd_width g; lcd_h = lcd_height g;
          pad = 8; status_h = 20; heart_h = 12;
          status_y = lcd_h - heart_h - status_h;
          card_y = pad;
          title_h = 28;
          remainingBelowCard0 = status_y - (card_y + pad + title_h + pad);
          remainingBelowCard = (if remainingBelowCard0 < 50 then 50 else remainingBelowCard0);
          innerWidth = lcd_w - 2 * pad;
          card_h0 = min innerWidth remainingBelowCard;
          card_h = (if card_h0 < 50 then 50 else card_h0)
      in \<lparr>LCD_W = lcd_w, LCD_H = lcd_h, PAD = pad, STATUS_H = status_h, HEART_H = heart_h,
          STATUS_Y = status_y, TITLE_Y = card_y + card_h + pad, TITLE_H = title_h,
          CARD_Y = card_y, CARD_H = card_h\<rparr>)"

text \<open>C's integer division, which truncates towards zero.\<close>

definition c_div :: "int \<Rightarrow> int \<Rightarrow> int" where
  "c_div a b = sgn a * sgn b * (\<bar>a\<bar> div \<bar>b\<bar>)"

subsection \<open>The slide card\<close>

text \<open>
  What \<open>drawSlideCard\<close> puts on the card: the text, the font and text size it is drawn
  with, and the two colours.
\<close>

record card_draw =
  card_text :: string
  card_font :: int
  card_size :: int
  card_panel :: u16
  card_border :: u16

text \<open>\<open>buf\<close>: \<open>snprintf\<close> into \<open>char buf[8]\<close> keeps at most seven bytes.\<close>

definition card_buf :: "c_int \<Rightarrow> string" where
  "card_buf idx1 = (if 0 < sint idx1 then take 7 (dec_int (sint idx1)) else ''--'')"

definition card_maxW :: "layout \<Rightarrow> int" where
  "card_maxW L = (LCD_W L - PAD L * 2) - 2 * 2"

definition card_maxH :: "layout \<Rightarrow> int" where
  "card_maxH L = CARD_H L - 2 * 2"

text \<open>The lambda \<open>fits\<close>, measured at text size 1.\<close>

definition fits :: "gfx \<Rightarrow> layout \<Rightarrow> string \<Rightarrow> int \<Rightarrow> bool" where
  "fits g L buf font = (textWidth g font buf \<le> card_maxW L \<and> fontHeight g font \<le> card_maxH L)"

text \<open>The loop over \<open>candidates\<close>: the first font that fits, 0 when none does.\<close>

fun first_fit :: "(int \<Rightarrow> bool) \<Rightarrow> int list \<Rightarrow> int" where
  "first_fit f [] = 0"
| "first_fit f (c # cs) = (if f c then c else first_fit f cs)"

definition chosenFont :: "gfx \<Rightarrow> layout \<Rightarrow> string \<Rightarrow> int" where
  "chosenFont g L buf = first_fit (fits g L buf) [8, 6, 4, 2]"

text \<open>
  The text size of the last branch, \<open>floorf(min(sx, sy))\<close> raised to 1. The quotients are
  taken exactly.
\<close>

definition fallback_scale :: "gfx \<Rightarrow> layout \<Rightarrow> string \<Rightarrow> int" where
  "fallback_scale g L buf =
     (let baseW = textWidth g 2 buf; baseH = fontHeight g 2;
          sx = (if baseW > 0 then real_of_int (card_maxW L) / real_of_int baseW else 1);
          sy = (if baseH > 0 then real_of_int (card_maxH L) / real_of_int baseH else 1);
          scale = \<lfloor>min sx sy\<rfloor>
      in if scale < 1 then 1 else scale)"

definition drawSlideCard :: "gfx \<Rightarrow> layout \<Rightarrow> c_int \<Rightarrow> u16 \<Rightarrow> u16 \<Rightarrow> card_draw" where
  "drawSlideCard g L idx1 panelColor borderColor =
     (let buf = card_buf idx1; chosen = chosenFont g L buf
      in if chosen > 0 \<and> chosen \<noteq> 2 then
           \<lparr>card_text = buf, card_font = chosen, card_size = 1,
            card_panel = panelColor, card_border = borderColor\<rparr>
         else if chosen = 2 then
           \<lparr>card_text = buf, card_font = 2, card_size = 1,
            card_panel = panelColor, card_border = borderColor\<rparr>
         else
           \<lparr>card_text = buf, card_font = 2, card_size = fallback_scale g L buf,
            card_panel = panelColor, card_border = borderColor\<rparr>)"

text \<open>The size of the drawn text, as the library measures it at the chosen text size.\<close>

definition drawn_width :: "gfx \<Rightarrow> card_draw \<Rightarrow> int" where
  "drawn_width g d = textWidth g (card_font d) (card_text d) * card_size d"

definition drawn_height :: "gfx \<Rightarrow> card_draw \<Rightarrow> int" where
  "drawn_height g d = fontHeight g (card_font d) * card_size d"

subsection \<open>The title marquee\<close>

record Marquee =
  marq_text :: string
  marq_x :: int
  marq_w :: int
  needed :: bool
  lastTick :: u32
  pauseStart :: u32
  inPause :: bool

definition Marquee_init :: Marquee where
  "Marquee_init = \<lparr>marq_text = [], marq_x = 0, marq_w = 0, needed = False,
                    lastTick = 0, pauseStart = 0, inPause = False\<rparr>"

text \<open>What one call prints into the title sprite: the text at each cursor position.\<close>

record title_draw =
  title_text :: string
  cursors :: "(int \<times> int) list"

definition stepPx :: int where "stepPx = 2"
definition tickMs :: u32 where "tickMs = 75"
definition spacer :: int where "spacer = 24"

definition drawTitleMarqueeTick :: "gfx \<Rightarrow> layout \<Rightarrow> u32 \<Rightarrow> Marquee \<Rightarrow> Marquee \<times> title_draw" where
  "drawTitleMarqueeTick g L now m =
     (let lh = fontHeight g 4;
          y0 = max 2 (c_div (TITLE_H L - lh) 2 + 2);
          maxW = LCD_W L - 2 * PAD L
      in if \<not> needed m then
           (let centeredX0 = PAD L + c_div (maxW - marq_w m) 2;
                centeredX = (if centeredX0 < PAD L then PAD L else centeredX0)
            in (m, \<lparr>title_text = marq_text m, cursors = [(centeredX, y0)]\<rparr>))
         else
           let totalSpan = marq_w m + spacer
           in if inPause m then
                ((if now - pauseStart m \<ge> 500
                  then m\<lparr>inPause := False, lastTick := now, marq_x := 0\<rparr> else m),
                 \<lparr>title_text = marq_text m, cursors = [(PAD L, y0)]\<rparr>)
              else
                let m' = (if now - lastTick m \<ge> tickMs then
                            (let m1 = m\<lparr>lastTick := now, marq_x := marq_x m - stepPx\<rparr>
                             in if marq_x m1 < - totalSpan
                                then m1\<lparr>marq_x := 0, inPause := True, pauseStart := now\<rparr>
                                else m1)
                          else m);
                    x1 = PAD L + marq_x m';
                    x2 = x1 + marq_w m' + spacer
                in (m', \<lparr>title_text = marq_text m', cursors = [(x1, y0), (x2, y0)]\<rparr>))"

text \<open>
  The marquee after the calls made at the times of a list, and whether each of these times
  is a tick later than the time before it (\<open>now - lastTick >= tickMs\<close>, in the
  arithmetic of \<open>uint32_t\<close>).
\<close>

fun marquee_ticks :: "gfx \<Rightarrow> layout \<Rightarrow> u32 list \<Rightarrow> Marquee \<Rightarrow> Marquee" where
  "marquee_ticks g L [] m = m"
| "marquee_ticks g L (n # ns) m = marquee_ticks g L ns (fst (drawTitleMarqueeTick g L n m))"

fun elapsed_chain :: "u32 \<Rightarrow> u32 list \<Rightarrow> bool" where
  "elapsed_chain t [] = True"
| "elapsed_chain t (n # ns) = (n - t \<ge> tickMs \<and> elapsed_chain n ns)"

subsection \<open>One iteration of the render loop\<close>

text \<open>
  The cached values of \<open>uiTask\<close>, and what one iteration reads from outside: the Network
  Worker's \<open>gProUnreachable\<close>, \<open>millis()\<close> when a new title is installed and when the
  marquee is drawn, and the heartbeat counter.
\<close>

record ui_state =
  lastSlide :: c_int
  lastTitle :: string
  lastStatus :: string
  wifiConnected :: bool
  lastReachable :: bool
  gMarq :: Marquee

record ui_env =
  read_gProUnreachable :: bool
  millis_title :: u32
  millis_tick :: u32
  millisTime :: u32

datatype draw_op =
    StatusBar string u16 u16
  | SlideCard card_draw
  | Title title_draw
  | Heartbeat u32

definition ui_initial :: ui_state where
  "ui_initial = \<lparr>lastSlide = - 9999, lastTitle = [], lastStatus = [], wifiConnected = False,
                  lastReachable = False, gMarq = Marquee_init\<rparr>"

text \<open>The boot paint, before the loop.\<close>

definition ui_boot :: "gfx \<Rightarrow> layout \<Rightarrow> u32 \<Rightarrow> draw_op list" where
  "ui_boot g L now =
     [StatusBar (''Booting'' @ ellipsis) COL_BG COL_MUTED,
      SlideCard (drawSlideCard g L (- 1) COL_BAD COL_BORDER),
      Title (snd (drawTitleMarqueeTick g L now Marquee_init))]"

text \<open>The colour of a status text.\<close>

definition status_fg :: "string \<Rightarrow> u16" where
  "status_fg t =
     (if strstr_found t ''OK'' \<or> strstr_found t ''Connected'' \<or>
         strstr_found t ''NEXT'' \<or> strstr_found t ''PREV'' \<or>
         strstr_found t ''HOME'' \<or> strstr_found t ''Wi-Fi''
      then COL_GOOD
      else if strstr_found t ''Unreachable'' \<or> strstr_found t ''Request Failed''
      then COL_BAD
      else COL_MUTED)"

definition card_color :: "bool \<Rightarrow> u16" where
  "card_color reachable = (if reachable then COL_GOOD else COL_BAD)"

text \<open>The branch for \<open>UI_STATUS\<close> and \<open>UI_WIFI\<close>.\<close>

definition ui_on_status :: "gfx \<Rightarrow> layout \<Rightarrow> ui_env \<Rightarrow> UiMsg \<Rightarrow> ui_state \<Rightarrow> ui_state \<times> draw_op list" where
  "ui_on_status g L e msg s =
     (let s1 = (if ui_type msg = UI_WIFI
                then s\<lparr>wifiConnected :=
                         (strstr_found (ui_text msg) ''OK'' \<or> strstr_found (ui_text msg) ''Connected'')\<rparr>
                else s);
          fg = status_fg (ui_text msg);
          (s2, d1) = (if lastStatus s1 \<noteq> ui_text msg
                      then (let t = strncpy_buf 63 (ui_text msg)
                            in (s1\<lparr>lastStatus := t\<rparr>, [StatusBar t COL_BG fg]))
                      else (s1, []));
          reachable = (wifiConnected s2 \<and> \<not> read_gProUnreachable e)
      in if reachable \<noteq> lastReachable s2
         then (s2\<lparr>lastReachable := reachable\<rparr>,
               d1 @ [SlideCard (drawSlideCard g L (lastSlide s2) (card_color reachable) COL_BORDER)])
         else (s2, d1))"

text \<open>The branch for \<open>UI_SLIDE\<close>.\<close>

definition ui_on_slide :: "gfx \<Rightarrow> layout \<Rightarrow> ui_env \<Rightarrow> UiMsg \<Rightarrow> ui_state \<Rightarrow> ui_state \<times> draw_op list" where
  "ui_on_slide g L e msg s =
     (let reachable = (wifiConnected s \<and> \<not> read_gProUnreachable e);
          (s1, d1) = (if slideIndexOneBased msg \<noteq> lastSlide s
                      then (s\<lparr>lastSlide := slideIndexOneBased msg\<rparr>,
                            [SlideCard (drawSlideCard g L (slideIndexOneBased msg)
                                          (card_color reachable) COL_BORDER)])
                      else (s, []))
      in if lastTitle s1 \<noteq> presName msg then
           (let w = textWidth g 4 (presName msg);
                maxW = LCD_W L - 2 * PAD L;
                need = (w > maxW);
                m = \<lparr>marq_text = presName msg, marq_x = 0, marq_w = w, needed = need,
                     lastTick = millis_title e,
                     pauseStart = (if need then millis_title e else 0), inPause = need\<rparr>;
                (m', td) = drawTitleMarqueeTick g L (millis_tick e) m
            in (s1\<lparr>lastTitle := presName msg, gMarq := m'\<rparr>, d1 @ [Title td]))
         else (s1, d1))"

text \<open>
  One pass through the body of \<open>for(;;)\<close>: \<open>Some msg\<close> when \<open>xQueueReceive\<close> delivers a
  message, \<open>None\<close> when it times out.
\<close>

definition ui_step :: "gfx \<Rightarrow> layout \<Rightarrow> ui_env \<Rightarrow> UiMsg option \<Rightarrow> ui_state \<Rightarrow> ui_state \<times> draw_op list" where
  "ui_step g L e received s =
     (let (s', ds) =
            (case received of
               Some msg \<Rightarrow>
                 if ui_type msg = UI_STATUS \<or> ui_type msg = UI_WIFI then ui_on_status g L e msg s
                 else if ui_type msg = UI_SLIDE then ui_on_slide g L e msg s
                 else (s, [])
             | None \<Rightarrow>
                 (let (m', td) = drawTitleMarqueeTick g L (millis_tick e) (gMarq s)
                  in (s\<lparr>gMarq := m'\<rparr>, [Title td])))
      in (s', ds @ [Heartbeat (millisTime e div 1000)]))"

text \<open>A run of the loop: one environment reading and one queue result per iteration.\<close>

fun ui_run :: "gfx \<Rightarrow> layout \<Rightarrow> (ui_env \<times> UiMsg option) list \<Rightarrow> ui_state \<Rightarrow> ui_state \<times> draw_op list" where
  "ui_run g L [] s = (s, [])"
| "ui_run g L ((e, r) # rest) s =
     (let (s1, d1) = ui_step g L e r s; (s2, d2) = ui_run g L rest s1 in (s2, d1 @ d2))"

text \<open>What a list of drawing operations did to the status bar and to the card.\<close>

fun status_bars :: "draw_op list \<Rightarrow> (string \<times> u16 \<times> u16) list" where
  "status_bars [] = []"
| "status_bars (StatusBar t bg fg # ds) = (t, bg, fg) # status_bars ds"
| "status_bars (d # ds) = status_bars ds"

fun card_draws :: "draw_op list \<Rightarrow> card_draw list" where
  "card_draws [] = []"
| "card_draws (SlideCard c # ds) = c # card_draws ds"
| "card_draws (d # ds) = card_draws ds"

definition card_colours :: "draw_op list \<Rightarrow> u16 list" where
  "card_colours ds = map card_panel (card_draws ds)"

text \<open>Two states of the loop that agree on the cached values the card depends on.\<close>

definition same_card_view :: "ui_state \<Rightarrow> ui_state \<Rightarrow> bool" where
  "same_card_view s s' =
     (lastSlide s = lastSlide s' \<and> wifiConnected s = wifiConnected s' \<and>
      lastReachable s = lastReachable s')"

text \<open>
  What a run of the loop receives: the messages, in order, each with the value of the
  Network Worker's flag read while it is processed. A time-out reads neither.
\<close>

fun received :: "(ui_env \<times> UiMsg option) list \<Rightarrow> (UiMsg \<times> bool) list" where
  "received [] = []"
| "received ((e, None) # rest) = received rest"
| "received ((e, Some msg) # rest) = (msg, read_gProUnreachable e) # received rest"

text \<open>
  A panel for the examples: 135 by 240 pixels, with every glyph of font \<open>f\<close> taken to be
  \<open>4 f\<close> pixels wide and \<open>8 f\<close> pixels high.
\<close>

definition example_gfx :: gfx where
  "example_gfx = \<lparr>lcd_width = 135, lcd_height = 240,
                   textWidth = (\<lambda>f s. 4 * f * int (length s)), fontHeight = (\<lambda>f. 8 * f)\<rparr>"

section \<open>The queues and the Input Sampler\<close>

text \<open>
  Modelled from the spec: \<open>xQueueSend\<close> is the FreeRTOS primitive, declared in
  \<open>freertos/queue.h\<close> and not part of the sketch. A queue created with
  \<open>xQueueCreate(n, ..)\<close> holds at most \<open>n\<close> items in arrival order; a send to a queue with
  room appends the item; a send to a full queue with zero ticks to wait returns at once
  and drops the item ("a full queue drops the newest enqueue rather than blocking the
  producer"); with a non-zero wait the caller is suspended.
\<close>

datatype send_outcome = pdTRUE | errQUEUE_FULL | Suspended

definition xQueueSend :: "nat \<Rightarrow> 'a list \<Rightarrow> 'a \<Rightarrow> u32 \<Rightarrow> send_outcome \<times> 'a list" where
  "xQueueSend capacity q item ticksToWait =
     (if length q < capacity then (pdTRUE, q @ [item])
      else if ticksToWait = 0 then (errQUEUE_FULL, q)
      else (Suspended, q))"

text \<open>The two queues of \<open>setup\<close>, sixteen items each, and the outcomes of the sends so far.\<close>

record queues =
  cmdQ :: "CmdType list"
  uiQ :: "UiMsg list"
  outcomes :: "send_outcome list"

definition queue_length :: nat where
  "queue_length = 16"

definition send_cmd :: "CmdType \<Rightarrow> queues \<Rightarrow> queues" where
  "send_cmd c qs =
     (case xQueueSend queue_length (cmdQ qs) c 0 of
        (r, q') \<Rightarrow> qs\<lparr>cmdQ := q', outcomes := outcomes qs @ [r]\<rparr>)"

definition send_ui :: "UiMsg \<Rightarrow> queues \<Rightarrow> queues" where
  "send_ui m qs =
     (case xQueueSend queue_length (uiQ qs) m 0 of
        (r, q') \<Rightarrow> qs\<lparr>uiQ := q', outcomes := outcomes qs @ [r]\<rparr>)"

text \<open>
  One pass of \<open>loop()\<close>: what the buttons, the power key, \<open>millis()\<close> and the two reads of
  \<open>WiFi.status()\<close> give, and the statics \<open>lastNetKick\<close> and \<open>lastConn\<close>.
\<close>

record loop_env =
  btnAction_isClick :: bool
  btnM5_isClick :: bool
  axp_btnPress :: c_int
  loop_millis :: u32
  wifi_up_kick :: bool
  wifi_up_announce :: bool

record loop_state =
  lastNetKick :: u32
  lastConn :: bool

definition loop_step :: "loop_env \<Rightarrow> loop_state \<Rightarrow> queues \<Rightarrow> loop_state \<times> queues" where
  "loop_step e s qs =
     (let q1 = (if btnAction_isClick e
                then send_cmd CMD_PREV (send_ui (enqueueStatus ''CLICK PREV'') qs) else qs);
          q2 = (if btnM5_isClick e
                then send_cmd CMD_NEXT (send_ui (enqueueStatus ''CLICK NEXT'') q1) else q1);
          q3 = (if axp_btnPress e = 2
                then send_cmd CMD_HOME0
                       (send_ui (enqueueStatus (''PWR'' @ [CHR 0xE2, CHR 0x86, CHR 0x92] @ ''HOME'')) q2)
                else q2);
          kick = (loop_millis e - lastNetKick s > 3000);
          s1 = (if kick then s\<lparr>lastNetKick := loop_millis e\<rparr> else s);
          q4 = (if kick \<and> \<not> wifi_up_kick e then send_cmd CMD_NET_UP q3 else q3);
          nowConn = wifi_up_announce e
      in if nowConn \<noteq> lastConn s1
         then (s1\<lparr>lastConn := nowConn\<rparr>,
               send_ui (enqueueWifi (if nowConn then ''Wi-Fi OK'' else ''No Wi-Fi'')) q4)
         else (s1, q4))"

text \<open>Passes of \<open>loop()\<close> one after the other, with nothing taken from the queues between them.\<close>

fun loop_run :: "loop_env list \<Rightarrow> loop_state \<Rightarrow> queues \<Rightarrow> loop_state \<times> queues" where
  "loop_run [] s qs = (s, qs)"
| "loop_run (e # es) s qs = (case loop_step e s qs of (s', qs') \<Rightarrow> loop_run es s' qs')"

text \<open>How many of the sends so far suspended the caller.\<close>

definition suspensions :: "queues \<Rightarrow> nat" where
  "suspensions qs = length (filter (\<lambda>r. r = Suspended) (outcomes qs))"

section \<open>Properties\<close>

subsection \<open>The poll\<close>

lemma hasOwnProperty_undefined: "\<not> hasOwnProperty JUndefined k"
  by (simp add: hasOwnProperty_def)

lemma poll_when_parsed:
  assumes "httpGET_once r = (True, HTTP_CODE_OK, payload)" and "JSON_parse payload \<noteq> JUndefined"
  shows "pollSlideOnce JSON_parse r g =
           \<lparr>poll_ok = True, errMsg = None, unreachable_after = False,
            poll_sent = (if g then [enqueueStatus ''Pro Connected''] else [])
                        @ [enqueueSlide (slide_idx1 (JSON_parse payload)) (slide_name (JSON_parse payload))]\<rparr>"
  using assms by (simp add: pollSlideOnce_def Let_def)

lemma poll_when_unparsed:
  assumes "httpGET_once r = (True, HTTP_CODE_OK, payload)" and "JSON_parse payload = JUndefined"
  shows "pollSlideOnce JSON_parse r g = poll_fail ''Bad JSON'' g"
  using assms by (simp add: pollSlideOnce_def Let_def)

lemma reply_200:
  "httpGET_once \<lparr>begin_ok = True, get_code = 200, reply_body = b\<rparr> = (True, HTTP_CODE_OK, b)"
  by (simp add: httpGET_once_def HTTP_CODE_OK_def)

text \<open>
  C1, as amended. For a poll whose response arrives with the success status: a payload
  that does not parse is malformed (the poll returns false, the flag is set, the banner is
  posted unless the flag was already set, and no slide message is offered); a payload that
  parses is a success even when the index or the presentation name is absent from it: the
  poll returns true, clears the flag and offers a slide message, whose index is -1 when
  the index is absent and whose title is empty when the name is absent.
\<close>

theorem poll_absent_fields_not_malformed:
  assumes "httpGET_once r = (True, HTTP_CODE_OK, payload)" and "JSON_parse payload = obj"
  shows "(obj \<noteq> JUndefined \<longrightarrow>
            poll_ok (pollSlideOnce JSON_parse r g) \<and>
            \<not> unreachable_after (pollSlideOnce JSON_parse r g) \<and>
            poll_sent (pollSlideOnce JSON_parse r g) =
              (if g then [enqueueStatus ''Pro Connected''] else [])
              @ [enqueueSlide (slide_idx1 obj) (slide_name obj)] \<and>
            (\<not> index_present obj \<longrightarrow> slide_idx1 obj = - 1) \<and>
            (\<not> name_present obj \<longrightarrow> slide_name obj = Some [])) \<and>
         (obj = JUndefined \<longrightarrow>
            \<not> poll_ok (pollSlideOnce JSON_parse r g) \<and>
            unreachable_after (pollSlideOnce JSON_parse r g) \<and>
            poll_sent (pollSlideOnce JSON_parse r g) =
              (if g then [] else [enqueueStatus ''Pro Unreachable'']))"
proof (cases "obj = JUndefined")
  case True
  with assms have "pollSlideOnce JSON_parse r g = poll_fail ''Bad JSON'' g"
    by (simp add: poll_when_unparsed)
  with True show ?thesis by (simp add: poll_fail_def)
next
  case False
  with assms have "JSON_parse payload \<noteq> JUndefined" by simp
  with assms(1) have "pollSlideOnce JSON_parse r g =
           \<lparr>poll_ok = True, errMsg = None, unreachable_after = False,
            poll_sent = (if g then [enqueueStatus ''Pro Connected''] else [])
                        @ [enqueueSlide (slide_idx1 (JSON_parse payload)) (slide_name (JSON_parse payload))]\<rparr>"
    by (rule poll_when_parsed)
  with assms(2) False show ?thesis
    by (auto simp: index_present_def name_present_def slide_idx1_def slide_name_def Let_def)
qed

text \<open>
  The theorem at two replies with status 200: one whose body parses to an object that
  has \<open>presentation_index\<close> but neither field under it, and one whose body does not parse.
\<close>

theorem poll_absent_fields_not_malformed_witness:
  "poll_ok (pollSlideOnce (\<lambda>_. JObject [(''presentation_index'', JObject [])])
              \<lparr>begin_ok = True, get_code = 200, reply_body = ''a''\<rparr> True) \<and>
   poll_sent (pollSlideOnce (\<lambda>_. JObject [(''presentation_index'', JObject [])])
              \<lparr>begin_ok = True, get_code = 200, reply_body = ''a''\<rparr> True) =
     [\<lparr>ui_type = UI_STATUS, ui_text = ''Pro Connected'', slideIndexOneBased = 0, presName = []\<rparr>,
      \<lparr>ui_type = UI_SLIDE, ui_text = [], slideIndexOneBased = - 1, presName = []\<rparr>] \<and>
   \<not> poll_ok (pollSlideOnce (\<lambda>_. JUndefined)
              \<lparr>begin_ok = True, get_code = 200, reply_body = ''b''\<rparr> False) \<and>
   poll_sent (pollSlideOnce (\<lambda>_. JUndefined)
              \<lparr>begin_ok = True, get_code = 200, reply_body = ''b''\<rparr> False) =
     [\<lparr>ui_type = UI_STATUS, ui_text = ''Pro Unreachable'', slideIndexOneBased = 0, presName = []\<rparr>]"
  using poll_absent_fields_not_malformed [OF reply_200,
          of "\<lambda>_. JObject [(''presentation_index'', JObject [])]" "''a''" _ True]
        poll_absent_fields_not_malformed [OF reply_200, of "\<lambda>_. JUndefined" "''b''" _ False]
  by (simp add: index_present_def name_present_def hasOwnProperty_def json_get_def
      enqueueStatus_def enqueueSlide_def UiMsg_zero_def strncpy_buf_def)

text \<open>
  C1 as stated fails: status 200 and the body \<open>{}\<close>, with neither field, while reachable.
  The poll returns true, leaves the flag clear and offers a slide message.
\<close>

theorem poll_absent_fields_counterexample:
  "httpGET_once \<lparr>begin_ok = True, get_code = 200, reply_body = ''{}''\<rparr> = (True, HTTP_CODE_OK, ''{}'') \<and>
   \<not> index_present (JObject []) \<and> \<not> name_present (JObject []) \<and>
   poll_ok (pollSlideOnce (\<lambda>_. JObject []) \<lparr>begin_ok = True, get_code = 200, reply_body = ''{}''\<rparr> False) \<and>
   \<not> unreachable_after (pollSlideOnce (\<lambda>_. JObject []) \<lparr>begin_ok = True, get_code = 200, reply_body = ''{}''\<rparr> False) \<and>
   poll_sent (pollSlideOnce (\<lambda>_. JObject []) \<lparr>begin_ok = True, get_code = 200, reply_body = ''{}''\<rparr> False)
     = [\<lparr>ui_type = UI_SLIDE, ui_text = [], slideIndexOneBased = - 1, presName = []\<rparr>]"
  by (simp add: pollSlideOnce_def httpGET_once_def HTTP_CODE_OK_def Let_def index_present_def
      name_present_def hasOwnProperty_def json_get_def slide_idx1_def slide_name_def
      enqueueSlide_def UiMsg_zero_def strncpy_buf_def)

text \<open>
  C6, as amended. For a response with the success status whose payload carries a numeric
  index \<open>i\<close> and a presentation name \<open>nm\<close>, polled while the flag is set, the poll returns
  true, clears the flag and offers exactly two messages: first the status "Pro Connected",
  then a slide message whose index is \<open>i + 1\<close> (in the 32-bit arithmetic of \<open>int\<close>) and
  whose title is the first 63 bytes of \<open>nm\<close>, which is \<open>nm\<close> itself when it is shorter
  than 64 bytes.
\<close>

theorem poll_recovery_messages:
  assumes "httpGET_once r = (True, HTTP_CODE_OK, payload)" and "JSON_parse payload = obj"
    and "index_present obj" and "index_value obj = JNumber i"
    and "name_present obj" and "name_value obj = JString nm"
  shows "poll_ok (pollSlideOnce JSON_parse r True) \<and>
         \<not> unreachable_after (pollSlideOnce JSON_parse r True) \<and>
         poll_sent (pollSlideOnce JSON_parse r True) =
           [\<lparr>ui_type = UI_STATUS, ui_text = ''Pro Connected'', slideIndexOneBased = 0, presName = []\<rparr>,
            \<lparr>ui_type = UI_SLIDE, ui_text = [], slideIndexOneBased = i + 1, presName = take 63 nm\<rparr>]"
proof -
  from assms(3) have "obj \<noteq> JUndefined"
    by (auto simp: index_present_def hasOwnProperty_undefined)
  with assms(2) have "JSON_parse payload \<noteq> JUndefined" by simp
  with assms(1) have "pollSlideOnce JSON_parse r True =
           \<lparr>poll_ok = True, errMsg = None, unreachable_after = False,
            poll_sent = (if True then [enqueueStatus ''Pro Connected''] else [])
                        @ [enqueueSlide (slide_idx1 (JSON_parse payload)) (slide_name (JSON_parse payload))]\<rparr>"
    by (rule poll_when_parsed)
  moreover from assms(3,4) have "slide_idx1 obj = i + 1"
    by (simp add: slide_idx1_def index_present_def index_value_def json_int_def Let_def)
  moreover from assms(5,6) have "slide_name obj = Some nm"
    by (simp add: slide_name_def name_present_def name_value_def json_cstr_def Let_def)
  ultimately show ?thesis using assms(2)
    by (simp add: enqueueStatus_def enqueueSlide_def UiMsg_zero_def strncpy_buf_def)
qed

text \<open>The scenario of the specification: index 4 and the name "Sermon".\<close>

theorem poll_recovery_messages_witness:
  "poll_sent (pollSlideOnce
      (\<lambda>_. JObject [(''presentation_index'',
               JObject [(''index'', JNumber 4),
                        (''presentation_id'', JObject [(''name'', JString ''Sermon'')])])])
      \<lparr>begin_ok = True, get_code = 200, reply_body = ''sermon''\<rparr> True) =
     [\<lparr>ui_type = UI_STATUS, ui_text = ''Pro Connected'', slideIndexOneBased = 0, presName = []\<rparr>,
      \<lparr>ui_type = UI_SLIDE, ui_text = [], slideIndexOneBased = 5, presName = ''Sermon''\<rparr>]"
  using poll_recovery_messages [OF reply_200,
      of "\<lambda>_. JObject [(''presentation_index'',
               JObject [(''index'', JNumber 4),
                        (''presentation_id'', JObject [(''name'', JString ''Sermon'')])])]"
         "''sermon''" _ 4 "''Sermon''"]
  by (simp add: index_present_def name_present_def index_value_def name_value_def
      hasOwnProperty_def json_get_def)

text \<open>
  C6 as stated fails for a presentation name of 66 bytes: the title of the slide message
  is its first 63 bytes, not the name.
\<close>

theorem poll_long_title_counterexample:
  "presName (last (poll_sent (pollSlideOnce
      (\<lambda>_. JObject [(''presentation_index'',
               JObject [(''index'', JNumber 4),
                        (''presentation_id'', JObject [(''name'',
                           JString ''Sunday Morning Worship Service - Week 12 - The Sermon on the Mount'')])])])
      \<lparr>begin_ok = True, get_code = 200, reply_body = ''long''\<rparr> True)))
     = ''Sunday Morning Worship Service - Week 12 - The Sermon on the Mo'' \<and>
   presName (last (poll_sent (pollSlideOnce
      (\<lambda>_. JObject [(''presentation_index'',
               JObject [(''index'', JNumber 4),
                        (''presentation_id'', JObject [(''name'',
                           JString ''Sunday Morning Worship Service - Week 12 - The Sermon on the Mount'')])])])
      \<lparr>begin_ok = True, get_code = 200, reply_body = ''long''\<rparr> True)))
     \<noteq> ''Sunday Morning Worship Service - Week 12 - The Sermon on the Mount''"
  by (simp add: pollSlideOnce_def httpGET_once_def HTTP_CODE_OK_def Let_def
      hasOwnProperty_def json_get_def slide_idx1_def slide_name_def json_cstr_def json_int_def
      enqueueSlide_def enqueueStatus_def UiMsg_zero_def strncpy_buf_def)


subsection \<open>The banners\<close>

lemma poll_results_shape:
  "(\<exists>err. \<forall>g. pollSlideOnce P r g = poll_fail err g) \<or>
   (\<exists>m. ui_type m = UI_SLIDE \<and> (\<forall>g. pollSlideOnce P r g =
       \<lparr>poll_ok = True, errMsg = None, unreachable_after = False,
        poll_sent = (if g then [enqueueStatus ''Pro Connected''] else []) @ [m]\<rparr>))"
proof -
  obtain ok code payload where h: "httpGET_once r = (ok, code, payload)"
    by (cases "httpGET_once r") auto
  show ?thesis
  proof (cases "ok \<and> code = HTTP_CODE_OK \<and> P payload \<noteq> JUndefined")
    case True
    have "ui_type (enqueueSlide (slide_idx1 (P payload)) (slide_name (P payload))) = UI_SLIDE"
      by (simp add: enqueueSlide_def UiMsg_zero_def)
    with True h show ?thesis
      by (intro disjI2 exI [of _ "enqueueSlide (slide_idx1 (P payload)) (slide_name (P payload))"])
         (simp add: pollSlideOnce_def Let_def)
  next
    case False
    with h have "\<forall>g. pollSlideOnce P r g =
        poll_fail (if \<not> ok then ''Poll fail'' else if code = HTTP_CODE_OK then ''Bad JSON'' else ''HTTP'') g"
      by (auto simp: pollSlideOnce_def Let_def)
    then show ?thesis by blast
  qed
qed

lemma poll_failed:
  assumes "\<not> poll_succeeds P r"
  shows "\<exists>err. \<forall>g. pollSlideOnce P r g = poll_fail err g"
  using poll_results_shape [of P r] assms by (auto simp: poll_succeeds_def)

lemma poll_succeeded:
  assumes "poll_succeeds P r"
  shows "\<exists>m. ui_type m = UI_SLIDE \<and> (\<forall>g. pollSlideOnce P r g =
       \<lparr>poll_ok = True, errMsg = None, unreachable_after = False,
        poll_sent = (if g then [enqueueStatus ''Pro Connected''] else []) @ [m]\<rparr>)"
  using poll_results_shape [of P r] assms by (auto simp: poll_succeeds_def poll_fail_def)

lemma poll_ok_flag_free: "poll_ok (pollSlideOnce P r g) = poll_succeeds P r"
  using poll_results_shape [of P r] by (auto simp: poll_succeeds_def poll_fail_def)

lemma count_status_append: "count_status t (xs @ ys) = count_status t xs + count_status t ys"
  by (simp add: count_status_def)

lemma sent_of_Cons: "sent_of (r # rs) = poll_sent r @ sent_of rs"
  by (simp add: sent_of_def)

lemma sent_of_Nil: "sent_of [] = []"
  by (simp add: sent_of_def)

lemma snd_poll_seq_Cons:
  "snd (poll_seq P g (r # rs)) =
     pollSlideOnce P r g # snd (poll_seq P (unreachable_after (pollSlideOnce P r g)) rs)"
  by (simp add: split_def Let_def)

lemma count_banner_self: "count_status t [enqueueStatus t'] = (if take 63 t' = t then 1 else 0)"
  by (simp add: count_status_def enqueueStatus_def UiMsg_zero_def strncpy_buf_def)

lemma failure_run_banner:
  "list_all (\<lambda>r. \<not> poll_succeeds P r) rs \<Longrightarrow>
   count_status ''Pro Unreachable'' (sent_of (snd (poll_seq P g rs))) = (if g \<or> rs = [] then 0 else 1) \<and>
   count_status ''Pro Connected'' (sent_of (snd (poll_seq P g rs))) = 0"
proof (induction rs arbitrary: g)
  case Nil
  show ?case by (simp add: sent_of_def count_status_def)
next
  case (Cons r rs)
  from Cons.prems have f: "\<not> poll_succeeds P r" and rest: "list_all (\<lambda>r. \<not> poll_succeeds P r) rs"
    by simp_all
  from poll_failed [OF f] obtain err where e: "\<And>g. pollSlideOnce P r g = poll_fail err g" by blast
  have u: "unreachable_after (pollSlideOnce P r g) = True" by (simp add: e poll_fail_def)
  have n: "count_status t [] = 0" for t by (simp add: count_status_def)
  from Cons.IH [OF rest, of True] show ?case
    by (simp del: poll_seq.simps add: snd_poll_seq_Cons e sent_of_Cons count_status_append poll_fail_def
        count_banner_self n)
qed

lemma success_run_banner:
  "list_all (\<lambda>r. poll_succeeds P r) rs \<Longrightarrow>
   count_status ''Pro Connected'' (sent_of (snd (poll_seq P g rs))) = (if g \<and> rs \<noteq> [] then 1 else 0) \<and>
   count_status ''Pro Unreachable'' (sent_of (snd (poll_seq P g rs))) = 0"
proof (induction rs arbitrary: g)
  case Nil
  show ?case by (simp add: sent_of_def count_status_def)
next
  case (Cons r rs)
  from Cons.prems have f: "poll_succeeds P r" and rest: "list_all (\<lambda>r. poll_succeeds P r) rs"
    by simp_all
  from poll_succeeded [OF f] obtain m where m: "ui_type m = UI_SLIDE"
    and e: "\<And>g. pollSlideOnce P r g =
       \<lparr>poll_ok = True, errMsg = None, unreachable_after = False,
        poll_sent = (if g then [enqueueStatus ''Pro Connected''] else []) @ [m]\<rparr>" by blast
  have c: "count_status t (m # ms) = count_status t ms" for t ms
    using m by (simp add: count_status_def)
  have n: "count_status t [] = 0" for t by (simp add: count_status_def)
  from Cons.IH [OF rest, of False] show ?case
    by (simp del: poll_seq.simps add: snd_poll_seq_Cons e sent_of_Cons count_status_append c count_banner_self n)
qed

lemma length_poll_seq: "length (snd (poll_seq P g rs)) = length rs"
  by (induction rs arbitrary: g) (simp_all add: split_def Let_def)

lemma poll_seq_append:
  "poll_seq P g (xs @ ys) =
     (fst (poll_seq P (fst (poll_seq P g xs)) ys),
      snd (poll_seq P g xs) @ snd (poll_seq P (fst (poll_seq P g xs)) ys))"
  by (induction xs arbitrary: g) (simp_all add: split_def Let_def)

lemma run_results_eq:
  "run_results P g pre run post = snd (poll_seq P (fst (poll_seq P g pre)) run)"
  by (simp add: run_results_def poll_seq_append length_poll_seq)

text \<open>
  C2. Take any sequence of polls and any contiguous run in it. If every poll of the run
  fails, the polls of the run offer the status "Pro Unreachable" at most once; if every
  poll of the run succeeds, they offer the status "Pro Connected" at most once. The flag
  that the polls before the run left behind is what gates the first emission.
\<close>

theorem banner_once_per_run:
  "(list_all (\<lambda>r. \<not> poll_succeeds P r) run \<longrightarrow>
      count_status ''Pro Unreachable'' (sent_of (run_results P g pre run post)) \<le> 1) \<and>
   (list_all (\<lambda>r. poll_succeeds P r) run \<longrightarrow>
      count_status ''Pro Connected'' (sent_of (run_results P g pre run post)) \<le> 1)"
  using failure_run_banner [of P run "fst (poll_seq P g pre)"]
        success_run_banner [of P run "fst (poll_seq P g pre)"]
  by (simp add: run_results_eq)

text \<open>
  Two failures (a transport failure, then status 404) after a success, and two successes
  after a failure.
\<close>

theorem banner_once_per_run_witness:
  "list_all (\<lambda>r. \<not> poll_succeeds (\<lambda>_. JObject []) r)
     [\<lparr>begin_ok = False, get_code = 0, reply_body = []\<rparr>,
      \<lparr>begin_ok = True, get_code = 404, reply_body = []\<rparr>] \<and>
   count_status ''Pro Unreachable'' (sent_of (run_results (\<lambda>_. JObject []) False
     [\<lparr>begin_ok = True, get_code = 200, reply_body = ''{}''\<rparr>]
     [\<lparr>begin_ok = False, get_code = 0, reply_body = []\<rparr>,
      \<lparr>begin_ok = True, get_code = 404, reply_body = []\<rparr>]
     [\<lparr>begin_ok = True, get_code = 200, reply_body = ''{}''\<rparr>])) \<le> 1 \<and>
   list_all (\<lambda>r. poll_succeeds (\<lambda>_. JObject []) r)
     [\<lparr>begin_ok = True, get_code = 200, reply_body = ''{}''\<rparr>,
      \<lparr>begin_ok = True, get_code = 200, reply_body = ''{}''\<rparr>] \<and>
   count_status ''Pro Connected'' (sent_of (run_results (\<lambda>_. JObject []) False
     [\<lparr>begin_ok = False, get_code = 0, reply_body = []\<rparr>]
     [\<lparr>begin_ok = True, get_code = 200, reply_body = ''{}''\<rparr>,
      \<lparr>begin_ok = True, get_code = 200, reply_body = ''{}''\<rparr>]
     [])) \<le> 1"
  using banner_once_per_run [of "\<lambda>_. JObject []"
     "[\<lparr>begin_ok = False, get_code = 0, reply_body = []\<rparr>,
       \<lparr>begin_ok = True, get_code = 404, reply_body = []\<rparr>]" False
     "[\<lparr>begin_ok = True, get_code = 200, reply_body = ''{}''\<rparr>]"
     "[\<lparr>begin_ok = True, get_code = 200, reply_body = ''{}''\<rparr>]"]
    banner_once_per_run [of "\<lambda>_. JObject []"
     "[\<lparr>begin_ok = True, get_code = 200, reply_body = ''{}''\<rparr>,
       \<lparr>begin_ok = True, get_code = 200, reply_body = ''{}''\<rparr>]" False
     "[\<lparr>begin_ok = False, get_code = 0, reply_body = []\<rparr>]" "[]"]
  by (simp add: poll_succeeds_def pollSlideOnce_def httpGET_once_def HTTP_CODE_OK_def
      poll_fail_def Let_def)


subsection \<open>Failed action commands\<close>














subsection \<open>The Input Sampler and the queues\<close>

lemma send_cmd_props:
  "suspensions (send_cmd c qs) = suspensions qs \<and>
   uiQ (send_cmd c qs) = uiQ qs \<and>
   cmdQ (send_cmd c qs) = (if length (cmdQ qs) < queue_length then cmdQ qs @ [c] else cmdQ qs)"
  by (simp add: send_cmd_def xQueueSend_def suspensions_def)

lemma send_ui_props:
  "suspensions (send_ui m qs) = suspensions qs \<and>
   cmdQ (send_ui m qs) = cmdQ qs \<and>
   uiQ (send_ui m qs) = (if length (uiQ qs) < queue_length then uiQ qs @ [m] else uiQ qs)"
  by (simp add: send_ui_def xQueueSend_def suspensions_def)

lemma loop_step_props:
  "suspensions (snd (loop_step e s qs)) = suspensions qs \<and>
   (length (cmdQ qs) = queue_length \<longrightarrow> cmdQ (snd (loop_step e s qs)) = cmdQ qs) \<and>
   (length (uiQ qs) = queue_length \<longrightarrow> uiQ (snd (loop_step e s qs)) = uiQ qs)"
  by (simp add: loop_step_def Let_def send_cmd_props send_ui_props)

text \<open>
  C8. Over any number of passes of \<open>loop()\<close>, whatever the buttons do, no send suspends
  the caller: every one returns at once. When the command queue is full, it is left as it
  was, so the commands offered meanwhile are dropped; the same holds for the UI queue.
\<close>

theorem loop_enqueue_never_blocks:
  "suspensions (snd (loop_run es s qs)) = suspensions qs \<and>
   (length (cmdQ qs) = queue_length \<longrightarrow> cmdQ (snd (loop_run es s qs)) = cmdQ qs) \<and>
   (length (uiQ qs) = queue_length \<longrightarrow> uiQ (snd (loop_run es s qs)) = uiQ qs)"
proof (induction es arbitrary: s qs)
  case Nil
  show ?case by simp
next
  case (Cons e es)
  obtain s' qs' where st: "loop_step e s qs = (s', qs')" by (cases "loop_step e s qs") auto
  from loop_step_props [of e s qs] st
  have a: "suspensions qs' = suspensions qs"
    and b: "length (cmdQ qs) = queue_length \<longrightarrow> cmdQ qs' = cmdQ qs"
    and c: "length (uiQ qs) = queue_length \<longrightarrow> uiQ qs' = uiQ qs" by simp_all
  from Cons.IH [of s' qs'] a b c show ?case by (auto simp: st)
qed


text \<open>
  Both buttons clicked in one pass while the command queue holds sixteen commands: the
  two status texts are queued, the two commands are dropped, nothing suspends.
\<close>

theorem loop_enqueue_never_blocks_witness:
  "length (cmdQ \<lparr>cmdQ = replicate 16 CMD_POLL, uiQ = [], outcomes = []\<rparr>) = queue_length \<and>
   cmdQ (snd (loop_run
      [\<lparr>btnAction_isClick = True, btnM5_isClick = True, axp_btnPress = 0, loop_millis = 100,
        wifi_up_kick = True, wifi_up_announce = False\<rparr>]
      \<lparr>lastNetKick = 0, lastConn = False\<rparr>
      \<lparr>cmdQ = replicate 16 CMD_POLL, uiQ = [], outcomes = []\<rparr>)) = replicate 16 CMD_POLL \<and>
   outcomes (snd (loop_run
      [\<lparr>btnAction_isClick = True, btnM5_isClick = True, axp_btnPress = 0, loop_millis = 100,
        wifi_up_kick = True, wifi_up_announce = False\<rparr>]
      \<lparr>lastNetKick = 0, lastConn = False\<rparr>
      \<lparr>cmdQ = replicate 16 CMD_POLL, uiQ = [], outcomes = []\<rparr>)) =
     [pdTRUE, errQUEUE_FULL, pdTRUE, errQUEUE_FULL]"
  using loop_enqueue_never_blocks [of
      "[\<lparr>btnAction_isClick = True, btnM5_isClick = True, axp_btnPress = 0, loop_millis = 100,
        wifi_up_kick = True, wifi_up_announce = False\<rparr>]"
      "\<lparr>lastNetKick = 0, lastConn = False\<rparr>"
      "\<lparr>cmdQ = replicate 16 CMD_POLL, uiQ = [], outcomes = []\<rparr>"]
  by (simp add: queue_length_def loop_step_def send_cmd_def send_ui_def xQueueSend_def Let_def)


subsection \<open>The Render Worker: status bar and card\<close>

lemma card_panel_drawSlideCard [simp]: "card_panel (drawSlideCard g L i p b) = p"
  by (simp add: drawSlideCard_def Let_def)

lemma status_bars_append [simp]: "status_bars (xs @ ys) = status_bars xs @ status_bars ys"
  by (induction xs rule: status_bars.induct) simp_all

lemma card_draws_append [simp]: "card_draws (xs @ ys) = card_draws xs @ card_draws ys"
  by (induction xs rule: card_draws.induct) simp_all

lemma ui_on_status_bars:
  "status_bars (snd (ui_on_status g L e msg s)) =
     (if lastStatus s = ui_text msg then []
      else [(take 63 (ui_text msg), COL_BG, status_fg (ui_text msg))])"
  by (simp add: ui_on_status_def Let_def strncpy_buf_def split_def)

lemma ui_on_status_state:
  "wifiConnected (fst (ui_on_status g L e msg s)) =
     (if ui_type msg = UI_WIFI
      then strstr_found (ui_text msg) ''OK'' \<or> strstr_found (ui_text msg) ''Connected''
      else wifiConnected s) \<and>
   lastStatus (fst (ui_on_status g L e msg s)) =
     (if lastStatus s = ui_text msg then lastStatus s else take 63 (ui_text msg)) \<and>
   lastSlide (fst (ui_on_status g L e msg s)) = lastSlide s \<and>
   lastReachable (fst (ui_on_status g L e msg s)) =
     (wifiConnected (fst (ui_on_status g L e msg s)) \<and> \<not> read_gProUnreachable e)"
  by (simp_all add: ui_on_status_def Let_def strncpy_buf_def split_def)

lemma ui_on_status_cards:
  "card_draws (snd (ui_on_status g L e msg s)) =
     (let reachable = (wifiConnected (fst (ui_on_status g L e msg s)) \<and> \<not> read_gProUnreachable e)
      in if reachable \<noteq> lastReachable s
         then [drawSlideCard g L (lastSlide s) (card_color reachable) COL_BORDER] else [])"
  by (simp_all add: ui_on_status_def Let_def strncpy_buf_def split_def)

lemma ui_on_slide_cards:
  "card_draws (snd (ui_on_slide g L e msg s)) =
     (if slideIndexOneBased msg \<noteq> lastSlide s
      then [drawSlideCard g L (slideIndexOneBased msg)
              (card_color (wifiConnected s \<and> \<not> read_gProUnreachable e)) COL_BORDER]
      else [])"
  by (simp_all add: ui_on_slide_def Let_def split_def)

lemma ui_on_slide_state:
  "wifiConnected (fst (ui_on_slide g L e msg s)) = wifiConnected s \<and>
   lastStatus (fst (ui_on_slide g L e msg s)) = lastStatus s \<and>
   lastSlide (fst (ui_on_slide g L e msg s)) = slideIndexOneBased msg \<and>
   lastReachable (fst (ui_on_slide g L e msg s)) = lastReachable s \<and>
   status_bars (snd (ui_on_slide g L e msg s)) = []"
  by (simp_all add: ui_on_slide_def Let_def split_def)

lemma ui_step_status:
  assumes "ui_type msg \<noteq> UI_SLIDE"
  shows "fst (ui_step g L e (Some msg) s) = fst (ui_on_status g L e msg s)"
    and "status_bars (snd (ui_step g L e (Some msg) s)) = status_bars (snd (ui_on_status g L e msg s))"
    and "card_draws (snd (ui_step g L e (Some msg) s)) = card_draws (snd (ui_on_status g L e msg s))"
proof -
  from assms have k: "ui_type msg = UI_STATUS \<or> ui_type msg = UI_WIFI"
    by (cases "ui_type msg") simp_all
  show "fst (ui_step g L e (Some msg) s) = fst (ui_on_status g L e msg s)"
    using k by (simp add: ui_step_def split_def Let_def)
  show "status_bars (snd (ui_step g L e (Some msg) s)) = status_bars (snd (ui_on_status g L e msg s))"
    using k by (simp add: ui_step_def split_def Let_def)
  show "card_draws (snd (ui_step g L e (Some msg) s)) = card_draws (snd (ui_on_status g L e msg s))"
    using k by (simp add: ui_step_def split_def Let_def)
qed

lemma ui_step_slide:
  assumes "ui_type msg = UI_SLIDE"
  shows "fst (ui_step g L e (Some msg) s) = fst (ui_on_slide g L e msg s)"
    and "status_bars (snd (ui_step g L e (Some msg) s)) = status_bars (snd (ui_on_slide g L e msg s))"
    and "card_draws (snd (ui_step g L e (Some msg) s)) = card_draws (snd (ui_on_slide g L e msg s))"
  using assms by (simp_all add: ui_step_def split_def Let_def)

lemma ui_step_timeout:
  "wifiConnected (fst (ui_step g L e None s)) = wifiConnected s \<and>
   lastStatus (fst (ui_step g L e None s)) = lastStatus s \<and>
   lastSlide (fst (ui_step g L e None s)) = lastSlide s \<and>
   lastReachable (fst (ui_step g L e None s)) = lastReachable s \<and>
   status_bars (snd (ui_step g L e None s)) = [] \<and>
   card_draws (snd (ui_step g L e None s)) = []"
  by (simp add: ui_step_def split_def Let_def)

text \<open>
  C10. For a status or Wi-Fi message, the status bar is redrawn (when the text differs
  from the cached one) in a colour chosen by substring tests, the positive markers first:
  a text that contains "OK", "Connected", "NEXT", "PREV", "HOME" or "Wi-Fi" is drawn in the
  good colour whatever else it contains; a text with none of these that contains
  "Unreachable" or "Request Failed" is drawn in the bad colour; any other text is drawn in
  the muted colour. The three colours differ, so each of them is drawn for exactly these
  texts: "No Wi-Fi" and "CLICK PREV" are good, "Pro Unreachable" and "Request Failed 404"
  are bad, "Booting" is muted. The Wi-Fi flag becomes true exactly when a Wi-Fi message
  contains "OK" or "Connected", and a status message leaves it as it was.
\<close>

theorem status_colour_rules:
  assumes "ui_type msg \<noteq> UI_SLIDE"
  shows "status_bars (snd (ui_step g L e (Some msg) s)) =
           (if lastStatus s = ui_text msg then []
            else [(take 63 (ui_text msg), COL_BG,
                   if strstr_found (ui_text msg) ''OK'' \<or> strstr_found (ui_text msg) ''Connected'' \<or>
              strstr_found (ui_text msg) ''NEXT'' \<or> strstr_found (ui_text msg) ''PREV'' \<or>
              strstr_found (ui_text msg) ''HOME'' \<or> strstr_found (ui_text msg) ''Wi-Fi''
                   then COL_GOOD
                   else if strstr_found (ui_text msg) ''Unreachable'' \<or>
              strstr_found (ui_text msg) ''Request Failed''
                   then COL_BAD
                   else COL_MUTED)]) \<and>
         wifiConnected (fst (ui_step g L e (Some msg) s)) =
           (if ui_type msg = UI_WIFI
            then strstr_found (ui_text msg) ''OK'' \<or> strstr_found (ui_text msg) ''Connected''
            else wifiConnected s) \<and>
         (status_fg (ui_text msg) = COL_GOOD \<longleftrightarrow>
            (strstr_found (ui_text msg) ''OK'' \<or> strstr_found (ui_text msg) ''Connected'' \<or>
              strstr_found (ui_text msg) ''NEXT'' \<or> strstr_found (ui_text msg) ''PREV'' \<or>
              strstr_found (ui_text msg) ''HOME'' \<or> strstr_found (ui_text msg) ''Wi-Fi'')) \<and>
         (status_fg (ui_text msg) = COL_BAD \<longleftrightarrow>
            (strstr_found (ui_text msg) ''Unreachable'' \<or>
              strstr_found (ui_text msg) ''Request Failed'') \<and>
            \<not> (strstr_found (ui_text msg) ''OK'' \<or> strstr_found (ui_text msg) ''Connected'' \<or>
              strstr_found (ui_text msg) ''NEXT'' \<or> strstr_found (ui_text msg) ''PREV'' \<or>
              strstr_found (ui_text msg) ''HOME'' \<or> strstr_found (ui_text msg) ''Wi-Fi'')) \<and>
         (status_fg (ui_text msg) = COL_MUTED \<longleftrightarrow>
            \<not> (strstr_found (ui_text msg) ''Unreachable'' \<or>
              strstr_found (ui_text msg) ''Request Failed'') \<and>
            \<not> (strstr_found (ui_text msg) ''OK'' \<or> strstr_found (ui_text msg) ''Connected'' \<or>
              strstr_found (ui_text msg) ''NEXT'' \<or> strstr_found (ui_text msg) ''PREV'' \<or>
              strstr_found (ui_text msg) ''HOME'' \<or> strstr_found (ui_text msg) ''Wi-Fi'')) \<and>
         COL_GOOD \<noteq> COL_BAD \<and> COL_GOOD \<noteq> COL_MUTED \<and> COL_BAD \<noteq> COL_MUTED \<and>
         status_fg ''No Wi-Fi'' = COL_GOOD \<and>
         status_fg ''CLICK PREV'' = COL_GOOD \<and>
         status_fg ''Pro Unreachable'' = COL_BAD \<and>
         status_fg ''Request Failed 404'' = COL_BAD \<and>
         status_fg ''Booting'' = COL_MUTED"
proof -
  have colours: "COL_GOOD \<noteq> COL_BAD \<and> COL_GOOD \<noteq> COL_MUTED \<and> COL_BAD \<noteq> COL_MUTED"
    by (simp add: COL_GOOD_def COL_BAD_def COL_MUTED_def)
  have fixed: "status_fg ''No Wi-Fi'' = COL_GOOD \<and> status_fg ''CLICK PREV'' = COL_GOOD \<and>
      status_fg ''Pro Unreachable'' = COL_BAD \<and> status_fg ''Request Failed 404'' = COL_BAD \<and>
      status_fg ''Booting'' = COL_MUTED"
    by (simp add: status_fg_def)
  have bar: "status_bars (snd (ui_step g L e (Some msg) s)) =
           (if lastStatus s = ui_text msg then []
            else [(take 63 (ui_text msg), COL_BG, status_fg (ui_text msg))])"
    using assms by (simp add: ui_step_status ui_on_status_bars)
  have flag: "wifiConnected (fst (ui_step g L e (Some msg) s)) =
           (if ui_type msg = UI_WIFI
            then strstr_found (ui_text msg) ''OK'' \<or> strstr_found (ui_text msg) ''Connected''
            else wifiConnected s)"
    using assms by (simp add: ui_step_status ui_on_status_state)
  have fg: "status_fg (ui_text msg) =
              (if strstr_found (ui_text msg) ''OK'' \<or> strstr_found (ui_text msg) ''Connected'' \<or>
              strstr_found (ui_text msg) ''NEXT'' \<or> strstr_found (ui_text msg) ''PREV'' \<or>
              strstr_found (ui_text msg) ''HOME'' \<or> strstr_found (ui_text msg) ''Wi-Fi''
               then COL_GOOD
               else if strstr_found (ui_text msg) ''Unreachable'' \<or>
              strstr_found (ui_text msg) ''Request Failed''
               then COL_BAD
               else COL_MUTED)"
    by (simp only: status_fg_def)
  from colours have iffs:
    "(status_fg (ui_text msg) = COL_GOOD \<longleftrightarrow>
            (strstr_found (ui_text msg) ''OK'' \<or> strstr_found (ui_text msg) ''Connected'' \<or>
              strstr_found (ui_text msg) ''NEXT'' \<or> strstr_found (ui_text msg) ''PREV'' \<or>
              strstr_found (ui_text msg) ''HOME'' \<or> strstr_found (ui_text msg) ''Wi-Fi'')) \<and>
     (status_fg (ui_text msg) = COL_BAD \<longleftrightarrow>
            (strstr_found (ui_text msg) ''Unreachable'' \<or>
              strstr_found (ui_text msg) ''Request Failed'') \<and>
            \<not> (strstr_found (ui_text msg) ''OK'' \<or> strstr_found (ui_text msg) ''Connected'' \<or>
              strstr_found (ui_text msg) ''NEXT'' \<or> strstr_found (ui_text msg) ''PREV'' \<or>
              strstr_found (ui_text msg) ''HOME'' \<or> strstr_found (ui_text msg) ''Wi-Fi'')) \<and>
     (status_fg (ui_text msg) = COL_MUTED \<longleftrightarrow>
            \<not> (strstr_found (ui_text msg) ''Unreachable'' \<or>
              strstr_found (ui_text msg) ''Request Failed'') \<and>
            \<not> (strstr_found (ui_text msg) ''OK'' \<or> strstr_found (ui_text msg) ''Connected'' \<or>
              strstr_found (ui_text msg) ''NEXT'' \<or> strstr_found (ui_text msg) ''PREV'' \<or>
              strstr_found (ui_text msg) ''HOME'' \<or> strstr_found (ui_text msg) ''Wi-Fi''))"
    unfolding fg by auto
  from bar fg have bar': "status_bars (snd (ui_step g L e (Some msg) s)) =
           (if lastStatus s = ui_text msg then []
            else [(take 63 (ui_text msg), COL_BG,
                   if strstr_found (ui_text msg) ''OK'' \<or> strstr_found (ui_text msg) ''Connected'' \<or>
              strstr_found (ui_text msg) ''NEXT'' \<or> strstr_found (ui_text msg) ''PREV'' \<or>
              strstr_found (ui_text msg) ''HOME'' \<or> strstr_found (ui_text msg) ''Wi-Fi''
                   then COL_GOOD
                   else if strstr_found (ui_text msg) ''Unreachable'' \<or>
              strstr_found (ui_text msg) ''Request Failed''
                   then COL_BAD
                   else COL_MUTED)])"
    by (simp only:)
  from bar' flag iffs colours fixed show ?thesis by blast
qed

text \<open>
  A freshly booted screen receiving the announcement "No Wi-Fi", the status
  "Request Failed 404" and the announcement "Booting": good, bad and muted.
\<close>

theorem status_colour_rules_witness:
  "ui_type (enqueueWifi ''No Wi-Fi'') \<noteq> UI_SLIDE \<and>
   status_bars (snd (ui_step example_gfx (initLayoutAndSprites example_gfx)
      \<lparr>read_gProUnreachable = False, millis_title = 1000, millis_tick = 1000, millisTime = 1000\<rparr>
      (Some (enqueueWifi ''No Wi-Fi'')) ui_initial)) = [(''No Wi-Fi'', COL_BG, COL_GOOD)] \<and>
   \<not> wifiConnected (fst (ui_step example_gfx (initLayoutAndSprites example_gfx)
      \<lparr>read_gProUnreachable = False, millis_title = 1000, millis_tick = 1000, millisTime = 1000\<rparr>
      (Some (enqueueWifi ''No Wi-Fi'')) ui_initial)) \<and>
   status_bars (snd (ui_step example_gfx (initLayoutAndSprites example_gfx)
      \<lparr>read_gProUnreachable = False, millis_title = 1000, millis_tick = 1000, millisTime = 1000\<rparr>
      (Some (enqueueStatusCode ''Request Failed'' 404)) ui_initial)) =
     [(''Request Failed 404'', COL_BG, COL_BAD)] \<and>
   status_bars (snd (ui_step example_gfx (initLayoutAndSprites example_gfx)
      \<lparr>read_gProUnreachable = False, millis_title = 1000, millis_tick = 1000, millisTime = 1000\<rparr>
      (Some (enqueueWifi ''Booting'')) ui_initial)) = [(''Booting'', COL_BG, COL_MUTED)]"
  using status_colour_rules [of "enqueueWifi ''No Wi-Fi''" example_gfx "initLayoutAndSprites example_gfx"
      "\<lparr>read_gProUnreachable = False, millis_title = 1000, millis_tick = 1000, millisTime = 1000\<rparr>"
      ui_initial]
    status_colour_rules [of "enqueueStatusCode ''Request Failed'' 404" example_gfx
      "initLayoutAndSprites example_gfx"
      "\<lparr>read_gProUnreachable = False, millis_title = 1000, millis_tick = 1000, millisTime = 1000\<rparr>"
      ui_initial]
    status_colour_rules [of "enqueueWifi ''Booting''" example_gfx "initLayoutAndSprites example_gfx"
      "\<lparr>read_gProUnreachable = False, millis_title = 1000, millis_tick = 1000, millisTime = 1000\<rparr>"
      ui_initial]
  by (simp add: enqueueWifi_def enqueueStatusCode_def dec_int_def dec_nat.simps digit_char_def
      UiMsg_zero_def strncpy_buf_def ui_initial_def)

text \<open>
  C7. A status or Wi-Fi message whose text equals the cached status text draws no status
  bar and leaves the cache as it was; a slide message whose index equals the cached index
  draws no card and leaves the cache as it was. Hence of two equal messages processed one
  after the other, the second redraws neither the status bar (for a status text that fits
  the 63 bytes of the message buffer) nor the card (for a slide message).
\<close>

theorem redraw_suppression:
  "(ui_type msg \<noteq> UI_SLIDE \<and> ui_text msg = lastStatus s \<longrightarrow>
      status_bars (snd (ui_step g L e (Some msg) s)) = [] \<and>
      lastStatus (fst (ui_step g L e (Some msg) s)) = lastStatus s) \<and>
   (ui_type msg = UI_SLIDE \<and> slideIndexOneBased msg = lastSlide s \<longrightarrow>
      card_draws (snd (ui_step g L e (Some msg) s)) = [] \<and>
      lastSlide (fst (ui_step g L e (Some msg) s)) = lastSlide s) \<and>
   (ui_type msg \<noteq> UI_SLIDE \<and> length (ui_text msg) \<le> 63 \<longrightarrow>
      status_bars (snd (ui_step g L e2 (Some msg) (fst (ui_step g L e1 (Some msg) s)))) = []) \<and>
   (ui_type msg = UI_SLIDE \<longrightarrow>
      card_draws (snd (ui_step g L e2 (Some msg) (fst (ui_step g L e1 (Some msg) s)))) = [])"
  by (auto simp: ui_step_status ui_step_slide ui_on_status_bars ui_on_status_state
      ui_on_slide_cards ui_on_slide_state)


text \<open>The banner "Pro Unreachable" twice, and slide 5 twice.\<close>

theorem redraw_suppression_witness:
  "status_bars (snd (ui_step example_gfx (initLayoutAndSprites example_gfx)
      \<lparr>read_gProUnreachable = True, millis_title = 1000, millis_tick = 1000, millisTime = 1000\<rparr>
      (Some (enqueueStatus ''Pro Unreachable'')) ui_initial)) =
     [(''Pro Unreachable'', COL_BG, COL_BAD)] \<and>
   status_bars (snd (ui_step example_gfx (initLayoutAndSprites example_gfx)
      \<lparr>read_gProUnreachable = True, millis_title = 1600, millis_tick = 1600, millisTime = 1400\<rparr>
      (Some (enqueueStatus ''Pro Unreachable''))
      (fst (ui_step example_gfx (initLayoutAndSprites example_gfx)
        \<lparr>read_gProUnreachable = True, millis_title = 1000, millis_tick = 1000, millisTime = 1000\<rparr>
        (Some (enqueueStatus ''Pro Unreachable'')) ui_initial)))) = [] \<and>
   card_draws (snd (ui_step example_gfx (initLayoutAndSprites example_gfx)
      \<lparr>read_gProUnreachable = True, millis_title = 1600, millis_tick = 1600, millisTime = 1400\<rparr>
      (Some (enqueueSlide 5 (Some ''Sermon'')))
      (fst (ui_step example_gfx (initLayoutAndSprites example_gfx)
        \<lparr>read_gProUnreachable = True, millis_title = 1000, millis_tick = 1000, millisTime = 1000\<rparr>
        (Some (enqueueSlide 5 (Some ''Sermon''))) ui_initial)))) = []"
  using redraw_suppression [where msg = "enqueueStatus ''Pro Unreachable''" and s = ui_initial
      and g = example_gfx and L = "initLayoutAndSprites example_gfx"
      and ?e1.0 = "\<lparr>read_gProUnreachable = True, millis_title = 1000, millis_tick = 1000, millisTime = 1000\<rparr>"
      and ?e2.0 = "\<lparr>read_gProUnreachable = True, millis_title = 1600, millis_tick = 1600, millisTime = 1400\<rparr>"]
    redraw_suppression [where msg = "enqueueSlide 5 (Some ''Sermon'')" and s = ui_initial
      and g = example_gfx and L = "initLayoutAndSprites example_gfx"
      and ?e1.0 = "\<lparr>read_gProUnreachable = True, millis_title = 1000, millis_tick = 1000, millisTime = 1000\<rparr>"
      and ?e2.0 = "\<lparr>read_gProUnreachable = True, millis_title = 1600, millis_tick = 1600, millisTime = 1400\<rparr>"]
  by (simp add: ui_step_status ui_on_status_bars enqueueStatus_def enqueueSlide_def UiMsg_zero_def
      strncpy_buf_def ui_initial_def status_fg_def)

lemma ui_step_view:
  assumes "same_card_view s s'" and "read_gProUnreachable e = read_gProUnreachable e'"
  shows "same_card_view (fst (ui_step g L e r s)) (fst (ui_step g L e' r s')) \<and>
         card_colours (snd (ui_step g L e r s)) = card_colours (snd (ui_step g L e' r s'))"
proof (cases r)
  case None
  with assms show ?thesis
    by (simp add: same_card_view_def card_colours_def ui_step_timeout)
next
  case (Some msg)
  show ?thesis
  proof (cases "ui_type msg = UI_SLIDE")
    case True
    with assms Some show ?thesis
      by (simp add: same_card_view_def card_colours_def ui_step_slide ui_on_slide_cards
          ui_on_slide_state)
  next
    case False
    with assms Some show ?thesis
      by (simp add: same_card_view_def card_colours_def ui_step_status ui_on_status_cards
          ui_on_status_state Let_def)
  qed
qed

lemma ui_step_colour:
  "list_all (\<lambda>c. c = card_color (wifiConnected (fst (ui_step g L e r s)) \<and> \<not> read_gProUnreachable e))
     (card_colours (snd (ui_step g L e r s)))"
proof (cases r)
  case None
  then show ?thesis by (simp add: card_colours_def ui_step_timeout)
next
  case (Some msg)
  show ?thesis
  proof (cases "ui_type msg = UI_SLIDE")
    case True
    with Some show ?thesis
      by (simp add: card_colours_def ui_step_slide ui_on_slide_cards ui_on_slide_state)
  next
    case False
    with Some show ?thesis
      by (simp add: card_colours_def ui_step_status ui_on_status_cards ui_on_status_state Let_def)
  qed
qed

lemma card_colours_append: "card_colours (xs @ ys) = card_colours xs @ card_colours ys"
  by (simp add: card_colours_def)

lemma snd_ui_run_Cons:
  "snd (ui_run g L ((e, r) # rest) s) =
     snd (ui_step g L e r s) @ snd (ui_run g L rest (fst (ui_step g L e r s)))"
  by (simp add: split_def Let_def)

text \<open>
  A time-out paints no card and leaves the cached card values as they were, so a run
  without messages paints no card.
\<close>

lemma card_colours_Cons:
  "card_colours (snd (ui_run g L ((e, r) # rest) s)) =
     card_colours (snd (ui_step g L e r s)) @
     card_colours (snd (ui_run g L rest (fst (ui_step g L e r s))))"
  by (simp del: ui_run.simps add: snd_ui_run_Cons card_colours_append)

lemma timeout_view:
  "same_card_view s (fst (ui_step g L e None s)) \<and> card_colours (snd (ui_step g L e None s)) = []"
  by (simp add: same_card_view_def card_colours_def ui_step_timeout)

lemma same_card_view_trans:
  "same_card_view a b \<Longrightarrow> same_card_view b c \<Longrightarrow> same_card_view a c"
  by (simp add: same_card_view_def)

lemma same_card_view_sym: "same_card_view a b \<Longrightarrow> same_card_view b a"
  by (simp add: same_card_view_def)

lemma no_messages_no_cards:
  "received run = [] \<Longrightarrow> card_colours (snd (ui_run g L run s)) = []"
proof (induction run arbitrary: s)
  case Nil
  show ?case by (simp add: card_colours_def)
next
  case (Cons x xs)
  obtain e r where x: "x = (e, r)" by (cases x)
  from Cons.prems x have r: "r = None" and rest: "received xs = []"
    by (cases r; simp)+
  from Cons.IH [OF rest] timeout_view [of s g L e] show ?case
    by (simp del: ui_run.simps add: x r card_colours_Cons)
qed

lemma ui_run_colours:
  assumes "same_card_view s s'" and "received run1 = received run2"
  shows "card_colours (snd (ui_run g L run1 s)) = card_colours (snd (ui_run g L run2 s'))"
  using assms
proof (induction run1 arbitrary: run2 s s')
  case Nil
  then have "received run2 = []" by simp
  then have "card_colours (snd (ui_run g L run2 s')) = []" by (rule no_messages_no_cards)
  then show ?case by (simp add: card_colours_def)
next
  case (Cons x xs)
  obtain e r where x: "x = (e, r)" by (cases x)
  show ?case
  proof (cases r)
    case None
    from timeout_view [of s g L e]
    have v: "same_card_view s (fst (ui_step g L e None s))"
      and c: "card_colours (snd (ui_step g L e None s)) = []" by simp_all
    from v Cons.prems(1) have v': "same_card_view (fst (ui_step g L e None s)) s'"
      by (simp add: same_card_view_def)
    from Cons.prems(2) x None have "received xs = received run2" by simp
    from Cons.IH [OF v' this] c show ?thesis
      by (simp del: ui_run.simps add: x None card_colours_Cons)
  next
    case (Some m)
    have inner: "card_colours (snd (ui_run g L run2 t)) =
                   card_colours (snd (ui_step g L e (Some m) s)) @
                   card_colours (snd (ui_run g L xs (fst (ui_step g L e (Some m) s))))"
      if "same_card_view s t" and "received run2 = (m, read_gProUnreachable e) # received xs"
      for t
      using that
    proof (induction run2 arbitrary: t)
      case Nil
      then show ?case by simp
    next
      case (Cons y ys)
      obtain e2 r2 where y: "y = (e2, r2)" by (cases y)
      show ?case
      proof (cases r2)
        case None
        from timeout_view [of t g L e2]
        have v: "same_card_view t (fst (ui_step g L e2 None t))"
          and c: "card_colours (snd (ui_step g L e2 None t)) = []" by simp_all
        from Cons.prems(1) v have v': "same_card_view s (fst (ui_step g L e2 None t))"
          by (rule same_card_view_trans)
        from Cons.prems(2) y None
        have "received ys = (m, read_gProUnreachable e) # received xs" by simp
        from Cons.IH [OF v' this] c show ?thesis
          by (simp del: ui_run.simps add: y None card_colours_Cons)
      next
        case (Some m2)
        from Cons.prems(2) y Some have m2: "m2 = m"
          and f: "read_gProUnreachable e = read_gProUnreachable e2"
          and rest: "received xs = received ys" by simp_all
        from ui_step_view [OF Cons.prems(1) f, of g L "Some m"]
        have v: "same_card_view (fst (ui_step g L e (Some m) s)) (fst (ui_step g L e2 (Some m) t))"
          and c: "card_colours (snd (ui_step g L e (Some m) s)) =
                  card_colours (snd (ui_step g L e2 (Some m) t))" by simp_all
        from \<open>\<And>run2 s s'. same_card_view s s' \<Longrightarrow> received xs = received run2 \<Longrightarrow>
                card_colours (snd (ui_run g L xs s)) = card_colours (snd (ui_run g L run2 s'))\<close>
          [OF v rest] c
        show ?thesis
          by (simp del: ui_run.simps add: y Some m2 card_colours_Cons)
      qed
    qed
    from inner [OF Cons.prems(1)] Cons.prems(2) x Some show ?thesis
      by (simp del: ui_run.simps add: card_colours_Cons)
  qed
qed

text \<open>
  C4, as amended. The Render Worker reads the Network Worker's flag directly, once for
  each message it processes. The colours it paints on the card are a function of the
  messages received and of the values of the flag read while processing them: two runs
  that start from the same cached card values, receive the same messages and read the
  same flag values while processing them paint the same colours, whatever the clock shows
  and wherever the queue times out in either run. Each card painted in an iteration has
  the good colour exactly when the Wi-Fi flag is true and the flag read in that iteration
  is false.
\<close>

theorem card_colour_from_messages_and_flag:
  assumes "same_card_view s s'" and "received run1 = received run2"
  shows "card_colours (snd (ui_run g L run1 s)) = card_colours (snd (ui_run g L run2 s')) \<and>
         list_all (\<lambda>c. c = card_color (wifiConnected (fst (ui_step g L e r s)) \<and> \<not> read_gProUnreachable e))
           (card_colours (snd (ui_step g L e r s)))"
  using ui_run_colours [OF assms, of g L] by (simp add: ui_step_colour)

text \<open>
  Two runs that receive "Wi-Fi OK" and read the flag as false: one times out first, the
  other times out twice afterwards, with other clocks and other values of the flag at
  the time-outs.
\<close>

theorem card_colour_from_messages_and_flag_witness:
  "same_card_view ui_initial ui_initial \<and>
   received
      [(\<lparr>read_gProUnreachable = True, millis_title = 400, millis_tick = 400, millisTime = 0\<rparr>, None),
       (\<lparr>read_gProUnreachable = False, millis_title = 1000, millis_tick = 1000, millisTime = 1000\<rparr>,
        Some (enqueueWifi ''Wi-Fi OK''))] =
   received
      [(\<lparr>read_gProUnreachable = False, millis_title = 7000, millis_tick = 7040, millisTime = 6300\<rparr>,
        Some (enqueueWifi ''Wi-Fi OK'')),
       (\<lparr>read_gProUnreachable = True, millis_title = 7080, millis_tick = 7080, millisTime = 7000\<rparr>, None),
       (\<lparr>read_gProUnreachable = False, millis_title = 7120, millis_tick = 7120, millisTime = 7000\<rparr>, None)] \<and>
   card_colours (snd (ui_run example_gfx (initLayoutAndSprites example_gfx)
      [(\<lparr>read_gProUnreachable = True, millis_title = 400, millis_tick = 400, millisTime = 0\<rparr>, None),
       (\<lparr>read_gProUnreachable = False, millis_title = 1000, millis_tick = 1000, millisTime = 1000\<rparr>,
        Some (enqueueWifi ''Wi-Fi OK''))] ui_initial)) =
   card_colours (snd (ui_run example_gfx (initLayoutAndSprites example_gfx)
      [(\<lparr>read_gProUnreachable = False, millis_title = 7000, millis_tick = 7040, millisTime = 6300\<rparr>,
        Some (enqueueWifi ''Wi-Fi OK'')),
       (\<lparr>read_gProUnreachable = True, millis_title = 7080, millis_tick = 7080, millisTime = 7000\<rparr>, None),
       (\<lparr>read_gProUnreachable = False, millis_title = 7120, millis_tick = 7120, millisTime = 7000\<rparr>, None)]
      ui_initial)) \<and>
   card_colours (snd (ui_step example_gfx (initLayoutAndSprites example_gfx)
      \<lparr>read_gProUnreachable = False, millis_title = 1000, millis_tick = 1000, millisTime = 1000\<rparr>
      (Some (enqueueWifi ''Wi-Fi OK'')) ui_initial)) = [COL_GOOD]"
  using card_colour_from_messages_and_flag [of ui_initial ui_initial
      "[(\<lparr>read_gProUnreachable = True, millis_title = 400, millis_tick = 400, millisTime = 0\<rparr>, None),
       (\<lparr>read_gProUnreachable = False, millis_title = 1000, millis_tick = 1000, millisTime = 1000\<rparr>,
        Some (enqueueWifi ''Wi-Fi OK''))]"
      "[(\<lparr>read_gProUnreachable = False, millis_title = 7000, millis_tick = 7040, millisTime = 6300\<rparr>,
        Some (enqueueWifi ''Wi-Fi OK'')),
       (\<lparr>read_gProUnreachable = True, millis_title = 7080, millis_tick = 7080, millisTime = 7000\<rparr>, None),
       (\<lparr>read_gProUnreachable = False, millis_title = 7120, millis_tick = 7120, millisTime = 7000\<rparr>, None)]"
      example_gfx "initLayoutAndSprites example_gfx"
      "\<lparr>read_gProUnreachable = False, millis_title = 1000, millis_tick = 1000, millisTime = 1000\<rparr>"
      "Some (enqueueWifi ''Wi-Fi OK'')"]
  by (simp add: same_card_view_def card_colours_def ui_step_status
        ui_on_status_cards ui_on_status_state Let_def
        enqueueWifi_def UiMsg_zero_def strncpy_buf_def ui_initial_def card_color_def)

text \<open>
  C4 as stated fails: the same two messages, "Wi-Fi OK" and slide 5, are painted green
  twice when the flag reads false, and red once when it reads true.
\<close>

theorem card_colour_flag_counterexample:
  "card_colours (snd (ui_run example_gfx (initLayoutAndSprites example_gfx)
      [(\<lparr>read_gProUnreachable = False, millis_title = 1000, millis_tick = 1000, millisTime = 1000\<rparr>,
        Some (enqueueWifi ''Wi-Fi OK'')),
       (\<lparr>read_gProUnreachable = False, millis_title = 2000, millis_tick = 2000, millisTime = 2000\<rparr>,
        Some (enqueueSlide 5 (Some ''Sermon'')))]
      ui_initial)) = [COL_GOOD, COL_GOOD] \<and>
   card_colours (snd (ui_run example_gfx (initLayoutAndSprites example_gfx)
      [(\<lparr>read_gProUnreachable = True, millis_title = 1000, millis_tick = 1000, millisTime = 1000\<rparr>,
        Some (enqueueWifi ''Wi-Fi OK'')),
       (\<lparr>read_gProUnreachable = True, millis_title = 2000, millis_tick = 2000, millisTime = 2000\<rparr>,
        Some (enqueueSlide 5 (Some ''Sermon'')))]
      ui_initial)) = [COL_BAD] \<and>
   COL_GOOD \<noteq> COL_BAD"
  by (simp del: ui_run.simps
      add: ui_run.simps(1) snd_ui_run_Cons card_colours_append card_colours_def ui_step_status ui_step_slide
        ui_on_status_cards ui_on_status_state ui_on_slide_cards ui_on_slide_state Let_def
        enqueueWifi_def enqueueSlide_def UiMsg_zero_def strncpy_buf_def ui_initial_def
        card_color_def COL_GOOD_def COL_BAD_def)


subsection \<open>The marquee\<close>

lemma marquee_tick_step:
  assumes "needed m" and "\<not> inPause m" and "now - lastTick m \<ge> tickMs"
  shows "fst (drawTitleMarqueeTick g L now m) =
           (if marq_x m - stepPx < - (marq_w m + spacer)
            then m\<lparr>lastTick := now, marq_x := 0, inPause := True, pauseStart := now\<rparr>
            else m\<lparr>lastTick := now, marq_x := marq_x m - stepPx\<rparr>)"
  using assms by (simp add: drawTitleMarqueeTick_def Let_def)

lemma marquee_ticks_snoc:
  "marquee_ticks g L (ns @ [n]) m = fst (drawTitleMarqueeTick g L n (marquee_ticks g L ns m))"
  by (induction ns arbitrary: m) simp_all

lemma elapsed_chain_snoc:
  "elapsed_chain t (ns @ [n]) =
     (elapsed_chain t ns \<and> n - (if ns = [] then t else last ns) \<ge> tickMs)"
  by (induction ns arbitrary: t) auto

lemma marquee_scrolls_on:
  assumes "needed m" and "\<not> inPause m" and "elapsed_chain (lastTick m) ns"
    and "- (marq_w m + spacer) \<le> marq_x m - stepPx * int (length ns)"
  shows "marq_x (marquee_ticks g L ns m) = marq_x m - stepPx * int (length ns) \<and>
         \<not> inPause (marquee_ticks g L ns m) \<and> needed (marquee_ticks g L ns m) \<and>
         marq_w (marquee_ticks g L ns m) = marq_w m \<and>
         lastTick (marquee_ticks g L ns m) = (if ns = [] then lastTick m else last ns)"
  using assms
proof (induction ns arbitrary: m)
  case Nil
  then show ?case by simp
next
  case (Cons n ns)
  let ?m1 = "fst (drawTitleMarqueeTick g L n m)"
  from Cons.prems have el: "n - lastTick m \<ge> tickMs" and ch: "elapsed_chain n ns" by simp_all
  have pos: "0 \<le> stepPx * int (length ns)" by (simp add: stepPx_def)
  from Cons.prems(4) pos have nowrap: "\<not> marq_x m - stepPx < - (marq_w m + spacer)"
    by (simp add: stepPx_def algebra_simps)
  from marquee_tick_step [OF Cons.prems(1,2) el, of g L] nowrap
  have m1: "?m1 = m\<lparr>lastTick := n, marq_x := marq_x m - stepPx\<rparr>" by simp
  have a: "needed ?m1" "\<not> inPause ?m1" "elapsed_chain (lastTick ?m1) ns"
    using Cons.prems ch by (simp_all add: m1)
  have b: "- (marq_w ?m1 + spacer) \<le> marq_x ?m1 - stepPx * int (length ns)"
    using Cons.prems(4) by (simp add: m1 algebra_simps)
  from Cons.IH [OF a b] show ?case
    by (simp add: m1 algebra_simps)
qed

text \<open>
  C5. Take a marquee in its scroll phase, with text width \<open>W\<close> (\<open>marq_w\<close>) and spacer \<open>S\<close>,
  and calls of the drawing routine at times each a tick (75 ms) or more after the one
  before. As long as the offset has not passed \<open>-(W+S)\<close>, every such call lowers it by
  exactly the step of two pixels and the marquee keeps scrolling; the call that would
  take it below \<open>-(W+S)\<close> sets it to 0 instead, turns the pause phase on and starts the
  pause at that time.
\<close>

theorem marquee_scroll_and_wrap:
  assumes "needed m" and "\<not> inPause m" and "elapsed_chain (lastTick m) (ns @ [n])"
    and "- (marq_w m + spacer) \<le> marq_x m - stepPx * int (length ns)"
  shows "marq_x (marquee_ticks g L ns m) = marq_x m - stepPx * int (length ns) \<and>
         \<not> inPause (marquee_ticks g L ns m) \<and>
         (- (marq_w m + spacer) \<le> marq_x (marquee_ticks g L ns m) - stepPx \<longrightarrow>
            marq_x (marquee_ticks g L (ns @ [n]) m) = marq_x (marquee_ticks g L ns m) - stepPx \<and>
            marq_x (marquee_ticks g L (ns @ [n]) m) < marq_x (marquee_ticks g L ns m) \<and>
            \<not> inPause (marquee_ticks g L (ns @ [n]) m)) \<and>
         (marq_x (marquee_ticks g L ns m) - stepPx < - (marq_w m + spacer) \<longrightarrow>
            marq_x (marquee_ticks g L (ns @ [n]) m) = 0 \<and>
            inPause (marquee_ticks g L (ns @ [n]) m) \<and>
            pauseStart (marquee_ticks g L (ns @ [n]) m) = n)"
proof -
  let ?m' = "marquee_ticks g L ns m"
  from assms(3) have ch: "elapsed_chain (lastTick m) ns"
    and el: "n - (if ns = [] then lastTick m else last ns) \<ge> tickMs"
    by (simp_all add: elapsed_chain_snoc)
  from marquee_scrolls_on [OF assms(1,2) ch assms(4), of g L]
  have x: "marq_x ?m' = marq_x m - stepPx * int (length ns)"
    and p: "\<not> inPause ?m'" and nd: "needed ?m'" and w: "marq_w ?m' = marq_w m"
    and lt: "lastTick ?m' = (if ns = [] then lastTick m else last ns)" by simp_all
  from el lt have el': "n - lastTick ?m' \<ge> tickMs" by simp
  from marquee_tick_step [OF nd p el', of g L] x p w show ?thesis
    by (simp add: marquee_ticks_snoc stepPx_def)
qed


text \<open>
  A title 200 pixels wide: three ticks from offset 0, and the tick that wraps from offset
  -224, taken across the wrap-around of \<open>millis()\<close>.
\<close>

theorem marquee_scroll_and_wrap_witness:
  "marq_x (marquee_ticks example_gfx (initLayoutAndSprites example_gfx) [1075, 1150]
      \<lparr>marq_text = ''A Very Long Presentation Title That Overflows'', marq_x = 0, marq_w = 200,
       needed = True, lastTick = 1000, pauseStart = 500, inPause = False\<rparr>) = - 4 \<and>
   marq_x (marquee_ticks example_gfx (initLayoutAndSprites example_gfx) [1075, 1150, 1225]
      \<lparr>marq_text = ''A Very Long Presentation Title That Overflows'', marq_x = 0, marq_w = 200,
       needed = True, lastTick = 1000, pauseStart = 500, inPause = False\<rparr>) = - 6 \<and>
   marq_x (marquee_ticks example_gfx (initLayoutAndSprites example_gfx) [59]
      \<lparr>marq_text = ''A Very Long Presentation Title That Overflows'', marq_x = - 224, marq_w = 200,
       needed = True, lastTick = 4294967280, pauseStart = 500, inPause = False\<rparr>) = 0 \<and>
   inPause (marquee_ticks example_gfx (initLayoutAndSprites example_gfx) [59]
      \<lparr>marq_text = ''A Very Long Presentation Title That Overflows'', marq_x = - 224, marq_w = 200,
       needed = True, lastTick = 4294967280, pauseStart = 500, inPause = False\<rparr>)"
  using marquee_scroll_and_wrap [of
      "\<lparr>marq_text = ''A Very Long Presentation Title That Overflows'', marq_x = 0, marq_w = 200,
       needed = True, lastTick = 1000, pauseStart = 500, inPause = False\<rparr>"
      "[1075, 1150]" 1225 example_gfx "initLayoutAndSprites example_gfx"]
    marquee_scroll_and_wrap [of
      "\<lparr>marq_text = ''A Very Long Presentation Title That Overflows'', marq_x = - 224, marq_w = 200,
       needed = True, lastTick = 4294967280, pauseStart = 500, inPause = False\<rparr>"
      "[]" 59 example_gfx "initLayoutAndSprites example_gfx"]
  by (simp add: tickMs_def stepPx_def spacer_def)


subsection \<open>The font of the slide card\<close>



lemma first_fit_none: "first_fit f cs = 0 \<Longrightarrow> 0 \<notin> set cs \<Longrightarrow> list_all (\<lambda>c. \<not> f c) cs"
  by (induction cs) (auto split: if_splits)









text \<open>
  The last branch, for a display on which it would be entered. Font 2 not fitting makes
  one of the two quotients at most 1, so the text size is 1 and the text is drawn in
  font 2 as measured, which does not fit.
\<close>

lemma fallback_scale_one:
  assumes "\<not> fits g L buf 2"
  shows "fallback_scale g L buf = 1"
proof -
  let ?bw = "textWidth g 2 buf" and ?bh = "fontHeight g 2"
  let ?sx = "if ?bw > 0 then real_of_int (card_maxW L) / real_of_int ?bw else 1"
  let ?sy = "if ?bh > 0 then real_of_int (card_maxH L) / real_of_int ?bh else 1"
  have x: "?sx \<le> 1" if "card_maxW L < ?bw"
  proof (cases "?bw > 0")
    case True
    from that have "real_of_int (card_maxW L) \<le> real_of_int ?bw" by simp
    with True show ?thesis by (simp add: divide_le_eq_1)
  next
    case False
    then show ?thesis by simp
  qed
  have y: "?sy \<le> 1" if "card_maxH L < ?bh"
  proof (cases "?bh > 0")
    case True
    from that have "real_of_int (card_maxH L) \<le> real_of_int ?bh" by simp
    with True show ?thesis by (simp add: divide_le_eq_1)
  next
    case False
    then show ?thesis by simp
  qed
  from assms have "card_maxW L < ?bw \<or> card_maxH L < ?bh" by (auto simp: fits_def)
  with x y have "?sx \<le> 1 \<or> ?sy \<le> 1" by blast
  then have "min ?sx ?sy \<le> 1" by (simp only: min_le_iff_disj)
  then have "min ?sx ?sy < 2" by linarith
  then have "\<lfloor>min ?sx ?sy\<rfloor> \<le> 1" by (simp only: floor_le_iff)
  moreover define sc where "sc = \<lfloor>min ?sx ?sy\<rfloor>"
  ultimately have le: "sc \<le> 1" by simp
  have "fallback_scale g L buf = (if sc < 1 then 1 else sc)"
    unfolding fallback_scale_def sc_def Let_def by (rule refl)
  with le show ?thesis by simp
qed

lemma fallback_does_not_fit:
  assumes "\<not> fits g L (card_buf idx1) 8" and "\<not> fits g L (card_buf idx1) 6"
    and "\<not> fits g L (card_buf idx1) 4" and "\<not> fits g L (card_buf idx1) 2"
  shows "card_font (drawSlideCard g L idx1 pc bc) = 2 \<and>
         card_size (drawSlideCard g L idx1 pc bc) = 1 \<and>
         \<not> (drawn_width g (drawSlideCard g L idx1 pc bc) \<le> card_maxW L \<and>
            drawn_height g (drawSlideCard g L idx1 pc bc) \<le> card_maxH L)"
proof -
  from assms have "chosenFont g L (card_buf idx1) = 0" by (simp add: chosenFont_def)
  then have "drawSlideCard g L idx1 pc bc =
             \<lparr>card_text = card_buf idx1, card_font = 2, card_size = 1,
              card_panel = pc, card_border = bc\<rparr>"
    using fallback_scale_one [OF assms(4)] by (simp add: drawSlideCard_def Let_def)
  with assms(4) show ?thesis
    by (simp add: drawn_width_def drawn_height_def fits_def)
qed

end
